theory Spec2Isabelle
  imports Main "HOL-Library.Word"
begin

unbundle bit_operations_syntax

section \<open>Shared types\<close>

type_synonym byte = "8 word"
type_synonym uint64 = "64 word"

text \<open>
  Go's \<open>error\<close> values that the modelled functions create or compare against.
  A Go \<open>error\<close> result is an \<open>error option\<close> (\<open>None\<close> is \<open>nil\<close>); a result
  pair \<open>(v, err)\<close> is \<open>error + 'a\<close>.
\<close>

datatype error =
    EOF
  | ErrUnexpectedEOF
  | ErrNotEnoughSigners
  | ErrBadSignature
  | ErrTooManyKeys
  | ErrGasLimitReached
  | ErrGasLimit
  | ErrIntrinsicGas
  | ErrExecutionReverted
  | ErrOversizedData
  | ErrRetrySequencer
  | ErrQueueFull
  | ErrUnexpectedNumberOfResults nat nat
  | ErrNoBatchData
  | ErrManyBatchData
  | ErrInvalidDataLocation nat
  | ErrOther string

text \<open>
  A Go \<open>panic\<close> ends the call without a result: a function that can panic returns an
  \<open>outcome\<close>. The panics are those of the modelled functions, with the values their
  messages print, and the run-time panics (index out of range, slice bounds out of
  range, nil dereference) of the statements the model covers.
\<close>

datatype panic =
    PanicOpenArbosState error
  | PanicDirtyStateDB
  | PanicNotRetryable
  | PanicGaveBackGas uint64
  | PanicUsedMoreGas uint64
  | PanicReceiptCount nat nat
  | PanicBalanceDelta int int
  | PanicIndexOutOfRange
  | PanicSliceBounds
  | PanicNilDereference

datatype 'a outcome = Returned 'a | Panic panic

section \<open>arbstate: the keysets of das-reader\<close>

record 'pk DataAvailabilityKeyset =
  AssumedHonest :: uint64
  PubKeys :: "'pk list"

subsection \<open>VerifySignature\<close>

text \<open>
  The loop \<open>for i := 0; i < len(keyset.PubKeys); i++\<close>: the first argument is the part
  of \<open>keyset.PubKeys\<close> from index \<open>i\<close> on. The untyped constant in \<open>(1<<i)&signersMask\<close>
  takes the type of \<open>signersMask\<close>, so the shift is on 64 bits and gives 0 from \<open>i = 64\<close> on;
  \<open>numNonSigners\<close> is a \<open>uint64\<close> and \<open>++\<close> wraps.
\<close>

fun signersLoop :: "'pk list \<Rightarrow> uint64 \<Rightarrow> nat \<Rightarrow> 'pk list \<Rightarrow> uint64 \<Rightarrow> 'pk list \<times> uint64" where
  "signersLoop [] signersMask i pubkeys numNonSigners = (pubkeys, numNonSigners)"
| "signersLoop (k # ks) signersMask i pubkeys numNonSigners =
     (if (push_bit i 1) AND signersMask \<noteq> 0
      then signersLoop ks signersMask (Suc i) (pubkeys @ [k]) numNonSigners
      else signersLoop ks signersMask (Suc i) pubkeys (numNonSigners + 1))"

text \<open>
  The BLS library is outside the sources: \<open>AggregatePublicKeys\<close> and
  \<open>blsVerifySignature\<close> (which returns \<open>(success, err)\<close>) are parameters.
\<close>

definition VerifySignature ::
  "('pk list \<Rightarrow> 'pk) \<Rightarrow> ('sig \<Rightarrow> byte list \<Rightarrow> 'pk \<Rightarrow> error + bool) \<Rightarrow>
   'pk DataAvailabilityKeyset \<Rightarrow> uint64 \<Rightarrow> byte list \<Rightarrow> 'sig \<Rightarrow> error option" where
  "VerifySignature AggregatePublicKeys blsVerifySignature keyset signersMask data sig =
     (case signersLoop (PubKeys keyset) signersMask 0 [] 0 of
        (pubkeys, numNonSigners) \<Rightarrow>
          if numNonSigners \<ge> AssumedHonest keyset then Some ErrNotEnoughSigners
          else
            (let aggregatedPubKey = AggregatePublicKeys pubkeys in
             case blsVerifySignature sig data aggregatedPubKey of
               Inl err \<Rightarrow> Some err
             | Inr success \<Rightarrow> if \<not> success then Some ErrBadSignature else None))"

subsection \<open>Readers and writers\<close>

text \<open>
  An \<open>io.Writer\<close> is modelled as the in-memory buffer the repository serializes into
  (\<open>bytes.NewBuffer\<close> in \<open>Hash\<close>): the bytes written so far. Its \<open>Write\<close> appends and
  never fails; the error branches of the callers are kept as the source has them.
  An \<open>io.Reader\<close> over a byte slice (\<open>bytes.NewReader\<close>) is the bytes not yet read.
\<close>

type_synonym writer = "byte list"
type_synonym reader = "byte list"

definition Write :: "byte list \<Rightarrow> writer \<Rightarrow> error + writer" where
  "Write p wr = Inr (wr @ p)"

text \<open>
  \<open>io.ReadFull(rd, buf)\<close> with \<open>len(buf) = n\<close>: exactly \<open>n\<close> bytes, \<open>EOF\<close> when none
  could be read, \<open>ErrUnexpectedEOF\<close> when fewer than \<open>n\<close>; an empty buffer reads nothing.
\<close>

definition ReadFull :: "reader \<Rightarrow> nat \<Rightarrow> error + (byte list \<times> reader)" where
  "ReadFull rd n =
     (if n = 0 then Inr ([], rd)
      else if rd = [] then Inl EOF
      else if length rd < n then Inl ErrUnexpectedEOF
      else Inr (take n rd, drop n rd))"

text \<open>
  Modelled from the spec: \<open>util.Uint64ToWriter\<close> and \<open>util.Uint64FromReader\<close> are not among
  the sources, and the spec leaves their byte format open ("whatever the shared
  integer-writer uses"). The writer side writes the bytes \<open>enc v\<close> for a parameter
  \<open>enc\<close>; the reader side is a parameter of \<open>DeserializeKeyset\<close>.
\<close>

definition Uint64ToWriter :: "(uint64 \<Rightarrow> byte list) \<Rightarrow> uint64 \<Rightarrow> writer \<Rightarrow> error + writer" where
  "Uint64ToWriter enc v wr = Write (enc v) wr"

subsection \<open>Serialize\<close>

text \<open>
  The loop over \<open>keyset.PubKeys\<close>. \<open>byte(len(pkBuf) / 256)\<close> and \<open>byte(len(pkBuf) % 256)\<close>
  are conversions to \<open>byte\<close>, which keep the low 8 bits. \<open>PublicKeyToBytes\<close> belongs to
  the BLS library and is a parameter.
\<close>

fun writeKeys :: "('pk \<Rightarrow> byte list) \<Rightarrow> 'pk list \<Rightarrow> writer \<Rightarrow> error + writer" where
  "writeKeys PublicKeyToBytes [] wr = Inr wr"
| "writeKeys PublicKeyToBytes (pk # pks) wr =
     (let pkBuf = PublicKeyToBytes pk;
          buf = [of_nat (length pkBuf div 256), of_nat (length pkBuf mod 256)] :: byte list
      in case Write (buf @ pkBuf) wr of
           Inl err \<Rightarrow> Inl err
         | Inr wr' \<Rightarrow> writeKeys PublicKeyToBytes pks wr')"

definition Serialize ::
  "(uint64 \<Rightarrow> byte list) \<Rightarrow> ('pk \<Rightarrow> byte list) \<Rightarrow> 'pk DataAvailabilityKeyset \<Rightarrow> writer \<Rightarrow> error + writer" where
  "Serialize enc PublicKeyToBytes keyset wr =
     (case Uint64ToWriter enc (AssumedHonest keyset) wr of
        Inl err \<Rightarrow> Inl err
      | Inr wr1 \<Rightarrow>
          (case Uint64ToWriter enc (of_nat (length (PubKeys keyset))) wr1 of
             Inl err \<Rightarrow> Inl err
           | Inr wr2 \<Rightarrow> writeKeys PublicKeyToBytes (PubKeys keyset) wr2))"

subsection \<open>DeserializeKeyset\<close>

text \<open>
  The loop \<open>for i := uint64(0); i < numKeys; i++\<close>; the first argument counts the keys
  still to read, and \<open>pubkeys\<close> holds the keys stored so far at indices \<open>0..i-1\<close>.
  \<open>PublicKeyFromBytes(buf, false)\<close> belongs to the BLS library and is a parameter.
\<close>

fun readKeys :: "(byte list \<Rightarrow> bool \<Rightarrow> error + 'pk) \<Rightarrow> nat \<Rightarrow> reader \<Rightarrow> 'pk list \<Rightarrow> error + 'pk list" where
  "readKeys PublicKeyFromBytes 0 rd pubkeys = Inr pubkeys"
| "readKeys PublicKeyFromBytes (Suc n) rd pubkeys =
     (case ReadFull rd 2 of
        Inl err \<Rightarrow> Inl err
      | Inr (buf2, rd1) \<Rightarrow>
          (case ReadFull rd1 (unat (buf2 ! 0) * 256 + unat (buf2 ! 1)) of
             Inl err \<Rightarrow> Inl err
           | Inr (buf, rd2) \<Rightarrow>
               (case PublicKeyFromBytes buf False of
                  Inl err \<Rightarrow> Inl err
                | Inr pk \<Rightarrow> readKeys PublicKeyFromBytes n rd2 (pubkeys @ [pk]))))"

definition DeserializeKeyset ::
  "(reader \<Rightarrow> error + (uint64 \<times> reader)) \<Rightarrow> (byte list \<Rightarrow> bool \<Rightarrow> error + 'pk) \<Rightarrow> reader \<Rightarrow>
   error + 'pk DataAvailabilityKeyset" where
  "DeserializeKeyset Uint64FromReader PublicKeyFromBytes rd =
     (case Uint64FromReader rd of
        Inl err \<Rightarrow> Inl err
      | Inr (assumedHonest, rd1) \<Rightarrow>
          (case Uint64FromReader rd1 of
             Inl err \<Rightarrow> Inl err
           | Inr (numKeys, rd2) \<Rightarrow>
               if numKeys > 64 then Inl ErrTooManyKeys
               else
                 (case readKeys PublicKeyFromBytes (unat numKeys) rd2 [] of
                    Inl err \<Rightarrow> Inl err
                  | Inr pubkeys \<Rightarrow>
                      Inr \<lparr>AssumedHonest = assumedHonest, PubKeys = pubkeys\<rparr>)))"

text \<open>
  \<open>binary.BigEndian.PutUint64\<close> and \<open>binary.BigEndian.Uint64\<close> of the Go standard library:
  eight bytes, most significant first.
\<close>

definition PutUint64 :: "uint64 \<Rightarrow> byte list" where
  "PutUint64 v = map (\<lambda>i. ucast (drop_bit (8 * i) v)) [7, 6, 5, 4, 3, 2, 1, 0]"

fun BigEndianUint64 :: "byte list \<Rightarrow> uint64" where
  "BigEndianUint64 [] = 0"
| "BigEndianUint64 (b # bs) = push_bit (8 * length bs) (ucast b) OR BigEndianUint64 bs"

text \<open>The keys whose bit is set in the mask, in keyset order, and the number of the others.\<close>

definition signersOf :: "'pk list \<Rightarrow> uint64 \<Rightarrow> 'pk list" where
  "signersOf keys signersMask = map (\<lambda>i. keys ! i) (filter (\<lambda>i. bit signersMask i) [0..<length keys])"

definition nonSignerCount :: "'pk list \<Rightarrow> uint64 \<Rightarrow> nat" where
  "nonSignerCount keys signersMask = length (filter (\<lambda>i. \<not> bit signersMask i) [0..<length keys])"

text \<open>The bytes \<open>Serialize\<close> writes for one key: the two length bytes, then the key.\<close>

definition keyBytes :: "('pk \<Rightarrow> byte list) \<Rightarrow> 'pk \<Rightarrow> byte list" where
  "keyBytes PublicKeyToBytes pk =
     [of_nat (length (PublicKeyToBytes pk) div 256), of_nat (length (PublicKeyToBytes pk) mod 256)]
       @ PublicKeyToBytes pk"

text \<open>
  One instance of the integer reader: eight bytes, big-endian, matching \<open>PutUint64\<close> as
  the writer's encoding.
\<close>

definition readUint64BE :: "reader \<Rightarrow> error + (uint64 \<times> reader)" where
  "readUint64BE rd =
     (case ReadFull rd 8 of
        Inl err \<Rightarrow> Inl err
      | Inr (buf, rd') \<Rightarrow> Inr (BigEndianUint64 buf, rd'))"

section \<open>arbnode: the sequencer inbox reader\<close>

type_synonym hash = "byte list"
type_synonym address = "byte list"

record ISequencerInboxTimeBounds =
  MinTimestamp :: uint64
  MaxTimestamp :: uint64
  MinBlockNumber :: uint64
  MaxBlockNumber :: uint64

text \<open>\<open>serialized\<close> is \<open>None\<close> for Go's \<open>nil\<close> slice: serialization not cached yet.\<close>

record SequencerInboxBatch =
  BlockHash :: hash
  BlockNumber :: uint64
  SequenceNumber :: uint64
  BeforeInboxAcc :: hash
  AfterInboxAcc :: hash
  AfterDelayedAcc :: hash
  AfterDelayedCount :: uint64
  TimeBounds :: ISequencerInboxTimeBounds
  txIndexInBlock :: nat
  dataLocation :: "8 word"
  bridgeAddress :: address
  serialized :: "byte list option"

definition batchDataTxInput :: "8 word" where "batchDataTxInput = 0"
definition batchDataSeparateEvent :: "8 word" where "batchDataSeparateEvent = 1"
definition batchDataNone :: "8 word" where "batchDataNone = 2"

text \<open>
  The L1 client (\<open>arbutil.L1Interface\<close>) and the ABI objects built in \<open>init\<close> are outside
  the sources. \<open>TransactionInBlock\<close> gives the transaction's \<open>Data()\<close>, \<open>FilterLogs\<close> the
  \<open>Data\<close> of each matching log; \<open>unpackInputs\<close> stands for \<open>UnpackIntoMap\<close> followed by
  the read of \<open>args["data"]\<close>, \<open>unpackEvent\<close> for \<open>UnpackIntoInterface\<close> followed by the
  read of \<open>event.Data\<close>.
\<close>

record FilterQuery =
  queryBlockHash :: hash
  queryAddresses :: "address list"
  queryTopics :: "hash list list"

record L1Interface =
  TransactionInBlock :: "hash \<Rightarrow> nat \<Rightarrow> error + byte list"
  FilterLogs :: "FilterQuery \<Rightarrow> error + byte list list"

record bridgeABI =
  sequencerBatchDataID :: hash
  unpackInputs :: "byte list \<Rightarrow> error + byte list"
  unpackEvent :: "byte list \<Rightarrow> error + byte list"

text \<open>
  \<open>tx.Data()[4:]\<close> panics on call data shorter than 4 bytes. \<open>numberAsHash\<close> is a
  32-byte hash whose last 8 bytes hold the sequence number.
\<close>

definition GetData :: "bridgeABI \<Rightarrow> SequencerInboxBatch \<Rightarrow> L1Interface \<Rightarrow> (error + byte list) outcome" where
  "GetData abi m client =
     (if dataLocation m = batchDataTxInput then
        (case TransactionInBlock client (BlockHash m) (txIndexInBlock m) of
           Inl err \<Rightarrow> Returned (Inl err)
         | Inr txData \<Rightarrow>
             if length txData < 4 then Panic PanicSliceBounds
             else
               (case unpackInputs abi (drop 4 txData) of
                  Inl err \<Rightarrow> Returned (Inl err)
                | Inr data \<Rightarrow> Returned (Inr data)))
      else if dataLocation m = batchDataSeparateEvent then
        (let numberAsHash = replicate (32 - 8) 0 @ PutUint64 (SequenceNumber m);
             query = \<lparr>queryBlockHash = BlockHash m, queryAddresses = [bridgeAddress m],
                      queryTopics = [[sequencerBatchDataID abi], [numberAsHash]]\<rparr>
         in case FilterLogs client query of
              Inl err \<Rightarrow> Returned (Inl err)
            | Inr logs \<Rightarrow>
                if length logs = 0 then Returned (Inl ErrNoBatchData)
                else if length logs > 1 then Returned (Inl ErrManyBatchData)
                else
                  (case unpackEvent abi (logs ! 0) of
                     Inl err \<Rightarrow> Returned (Inl err)
                   | Inr data \<Rightarrow> Returned (Inr data)))
      else if dataLocation m = batchDataNone then Returned (Inr [])
      else Returned (Inl (ErrInvalidDataLocation (unat (dataLocation m)))))"

text \<open>
  \<open>SequencerInboxBatch.Serialize\<close>. The batch is passed by pointer and \<open>m.serialized\<close> is
  assigned, so the batch is returned with the result.
\<close>

definition headerVals :: "SequencerInboxBatch \<Rightarrow> uint64 list" where
  "headerVals m =
     [MinTimestamp (TimeBounds m), MaxTimestamp (TimeBounds m),
      MinBlockNumber (TimeBounds m), MaxBlockNumber (TimeBounds m),
      AfterDelayedCount m]"

definition SerializeBatch ::
  "bridgeABI \<Rightarrow> SequencerInboxBatch \<Rightarrow> L1Interface \<Rightarrow> ((error + byte list) \<times> SequencerInboxBatch) outcome" where
  "SerializeBatch abi m client =
     (case serialized m of
        Some cached \<Rightarrow> Returned (Inr cached, m)
      | None \<Rightarrow>
          (let fullData = foldl (\<lambda>fullData bound. fullData @ PutUint64 bound) [] (headerVals m)
           in case GetData abi m client of
                Panic p \<Rightarrow> Panic p
              | Returned (Inl err) \<Rightarrow> Returned (Inl err, m)
              | Returned (Inr data) \<Rightarrow>
                  (let fullData = fullData @ data
                   in Returned (Inr fullData, m\<lparr>serialized := Some fullData\<rparr>))))"

text \<open>The header bytes as the spec words them: five 8-byte big-endian fields in order.\<close>

definition specBatchHeader :: "SequencerInboxBatch \<Rightarrow> byte list" where
  "specBatchHeader m =
     PutUint64 (MinTimestamp (TimeBounds m)) @ PutUint64 (MaxTimestamp (TimeBounds m)) @
     PutUint64 (MinBlockNumber (TimeBounds m)) @ PutUint64 (MaxBlockNumber (TimeBounds m)) @
     PutUint64 (AfterDelayedCount m)"

text \<open>A batch, two clients and an ABI to run the serializer on.\<close>

definition batch0 :: SequencerInboxBatch where
  "batch0 = \<lparr>BlockHash = [], BlockNumber = 7, SequenceNumber = 3, BeforeInboxAcc = [],
     AfterInboxAcc = [], AfterDelayedAcc = [], AfterDelayedCount = 5,
     TimeBounds = \<lparr>MinTimestamp = 1, MaxTimestamp = 2, MinBlockNumber = 3, MaxBlockNumber = 4\<rparr>,
     txIndexInBlock = 0, dataLocation = batchDataTxInput, bridgeAddress = [], serialized = None\<rparr>"

definition client0 :: L1Interface where
  "client0 = \<lparr>TransactionInBlock = (\<lambda>h i. Inr [1, 2, 3, 4, 170, 187]), FilterLogs = (\<lambda>q. Inr [])\<rparr>"

definition deadClient :: L1Interface where
  "deadClient = \<lparr>TransactionInBlock = (\<lambda>h i. Inl (ErrOther ''offline'')),
     FilterLogs = (\<lambda>q. Inl (ErrOther ''offline''))\<rparr>"

definition abi0 :: bridgeABI where
  "abi0 = \<lparr>sequencerBatchDataID = [], unpackInputs = Inr, unpackEvent = Inr\<rparr>"

section \<open>arbos: the block producer\<close>

subsection \<open>Data\<close>

text \<open>
  The transaction kinds the producer distinguishes (\<open>tx.GetInner()\<close> type switches and
  \<open>tx.Type()\<close>); every other kind is \<open>OtherTx\<close>.
\<close>

datatype TxData =
    ArbitrumInternalTx
  | ArbitrumDepositTx (Value: int)
  | ArbitrumSubmitRetryableTx (DepositValue: int)
  | ArbitrumRetryTx (TicketId: hash)
  | OtherTx

record Transaction =
  GetInner :: TxData
  Gas :: uint64
  txPayload :: "byte list"

record Log =
  Address :: address
  Topics :: "hash list"
  logData :: "byte list"
  logBlockHash :: hash

record Receipt =
  Status :: uint64
  GasUsed :: uint64
  Logs :: "Log list"
  receiptBlockHash :: hash

record Header =
  ParentHash :: hash
  UncleHash :: hash
  Coinbase :: address
  Root :: hash
  TxHash :: hash
  ReceiptHash :: hash
  Bloom :: "byte list"
  Difficulty :: int
  Number :: int
  GasLimit :: uint64
  headerGasUsed :: uint64
  Time :: uint64
  Extra :: "byte list"
  MixDigest :: hash
  Nonce :: "byte list"
  BaseFee :: int

record Block =
  blockHeader :: Header
  blockTransactions :: "Transaction list"

datatype L1MessageType = L1MessageType_L2Message | L1MessageType_Other nat

record L1IncomingMessageHeader =
  Kind :: L1MessageType
  Poster :: address
  l1BlockNumberOf :: uint64
  Timestamp :: uint64
  RequestId :: "hash option"
  L1BaseFee :: "int option"

record L1Info =
  infoPoster :: address
  infoL1BlockNumber :: uint64
  infoL1Timestamp :: uint64

record ChainConfig =
  ChainID :: int
  DebugMode :: bool

text \<open>
  \<open>SequencingHooks\<close>; the filters get the ArbOS state, which is a view of the state
  database \<open>'st\<close>. A \<open>nil\<close> error is \<open>None\<close>.
\<close>

record 'st SequencingHooks =
  TxErrors :: "error option list"
  DiscardInvalidTxsEarly :: bool
  PreTxFilter :: "'st \<Rightarrow> Transaction \<Rightarrow> address \<Rightarrow> error option"
  PostTxFilter :: "'st \<Rightarrow> Transaction \<Rightarrow> address \<Rightarrow> uint64 \<Rightarrow> Receipt \<Rightarrow> error option"

definition noopSequencingHooks :: "'st SequencingHooks" where
  "noopSequencingHooks =
     \<lparr>TxErrors = [], DiscardInvalidTxsEarly = False,
      PreTxFilter = (\<lambda>state tx sender. None),
      PostTxFilter = (\<lambda>state tx sender dataGas receipt. None)\<rparr>"

text \<open>What the producer and the sequencer write to the log.\<close>

datatype logEntry =
    LogCouldNotGetPosterCost
  | LogErrorApplyingTransaction error
  | LogUsedLessGas uint64
  | LogFailedToParseL2ToL1Transaction error
  | LogFailedToParseL2ToL1Tx error
  | LogUnexpectedBalanceDelta int int
  | LogCannotSequence
  | LogErrorSequencing error

text \<open>
  What the producer calls outside the sources, as a record of functions over the state
  database \<open>'st\<close>: the ArbOS state accessors, the signer, the state transition
  \<open>core.ApplyTransaction\<close>, the log parsers, the hashing of go-ethereum, and the constants
  \<open>l2pricing.GethBlockGasLimit\<close>, \<open>types.EmptyUncleHash\<close> and the addresses and event ids
  set by the precompile module.

  \<open>ApplyTransaction\<close> gets the state after \<open>statedb.Prepare(tx.Hash(), len(receipts))\<close>,
  the header, the gas pool and the transaction, and on success gives the receipt, the
  scheduled transactions, the new state, the new gas pool and the new \<open>header.GasUsed\<close>.
  On an error the producer reverts the state to its snapshot and drops the gas pool,
  so an error carries nothing else. \<open>InternalTxStartBlock\<close> builds an
  \<open>ArbitrumInternalTx\<close>. \<open>OpenRetryable\<close> tells whether the retryable still exists.
\<close>

record 'st ArbEnv =
  OpenSystemArbosState :: "'st \<Rightarrow> error option"
  GetUnexpectedBalanceDelta :: "'st \<Rightarrow> int"
  BaseFeeWei :: "'st \<Rightarrow> int"
  PerBlockGasLimit :: "'st \<Rightarrow> uint64"
  GethBlockGasLimit :: uint64
  EmptyUncleHash :: hash
  HeaderHash :: "Header \<Rightarrow> hash"
  InternalTxStartBlock :: "int \<Rightarrow> int option \<Rightarrow> uint64 \<Rightarrow> Header \<Rightarrow> Header option \<Rightarrow> Transaction"
  Sender :: "Transaction \<Rightarrow> error + address"
  GetPosterInfo :: "'st \<Rightarrow> Transaction \<Rightarrow> address \<Rightarrow> int"
  OpenRetryable :: "'st \<Rightarrow> hash \<Rightarrow> uint64 \<Rightarrow> bool"
  ApplyTransaction ::
    "'st \<Rightarrow> Header \<Rightarrow> uint64 \<Rightarrow> Transaction \<Rightarrow> nat \<Rightarrow>
     error + (Receipt \<times> Transaction list \<times> 'st \<times> uint64 \<times> uint64)"
  ArbSysAddress :: address
  L2ToL1TransactionEventID :: hash
  L2ToL1TxEventID :: hash
  ParseL2ToL1TransactionLog :: "Log \<Rightarrow> error + int"
  ParseL2ToL1TxLog :: "Log \<Rightarrow> error + int"
  IntermediateRoot :: "'st \<Rightarrow> hash \<times> 'st"
  DeriveTxHash :: "Transaction list \<Rightarrow> hash"
  DeriveReceiptHash :: "Receipt list \<Rightarrow> hash"
  CreateBloom :: "Receipt list \<Rightarrow> byte list"
  BlockHashOf :: "Block \<Rightarrow> hash"
  SendMerkleRoot :: "'st \<Rightarrow> hash"
  SendMerkleSize :: "'st \<Rightarrow> uint64"
  NextBlockNumber :: "'st \<Rightarrow> uint64"
  FormatVersion :: "'st \<Rightarrow> uint64"

definition TxGas :: uint64 where
  "TxGas = 21000"

definition MaxUint64 :: uint64 where
  "MaxUint64 = - 1"

subsection \<open>createNewHeader\<close>

definition createNewHeader ::
  "'st ArbEnv \<Rightarrow> Header option \<Rightarrow> L1Info option \<Rightarrow> 'st \<Rightarrow> Header" where
  "createNewHeader env prevHeader l1info state =
     (let baseFee = BaseFeeWei env state;
          timestamp = (case l1info of None \<Rightarrow> 0 | Some info \<Rightarrow> infoL1Timestamp info);
          coinbase = (case l1info of None \<Rightarrow> replicate 20 0 | Some info \<Rightarrow> infoPoster info);
          lastBlockHash = (case prevHeader of None \<Rightarrow> replicate 32 0 | Some prev \<Rightarrow> HeaderHash env prev);
          blockNumber = (case prevHeader of None \<Rightarrow> 0 | Some prev \<Rightarrow> Number prev + 1);
          timestamp = (case prevHeader of
                         None \<Rightarrow> timestamp
                       | Some prev \<Rightarrow> if timestamp < Time prev then Time prev else timestamp)
      in \<lparr>ParentHash = lastBlockHash, UncleHash = EmptyUncleHash env, Coinbase = coinbase,
          Root = replicate 32 0, TxHash = replicate 32 0, ReceiptHash = replicate 32 0,
          Bloom = replicate 256 0, Difficulty = 1,
          Number = blockNumber, GasLimit = GethBlockGasLimit env, headerGasUsed = 0,
          Time = timestamp, Extra = [], MixDigest = replicate 32 0, Nonce = replicate 8 0,
          BaseFee = baseFee\<rparr>)"

subsection \<open>The loop of ProduceBlockAdvanced\<close>

text \<open>
  The variables of \<open>ProduceBlockAdvanced\<close> that the loop reads and writes.
  \<open>sequencingTxErrors\<close> is \<open>sequencingHooks.TxErrors\<close>, which the caller reads after
  the call; \<open>logged\<close> is what has been written to the log.
\<close>

record 'st producerState =
  txes :: "Transaction list"
  redeems :: "Transaction list"
  complete :: "Transaction list"
  receipts :: "Receipt list"
  expectedBalanceDelta :: int
  userTxsProcessed :: nat
  blockGasLeft :: uint64
  gethGas :: uint64
  statedb :: "'st"
  header :: Header
  sequencingTxErrors :: "error option list"
  logged :: "logEntry list"

text \<open>
  The closure that applies one transaction (the function literal called in place).
  Its result: the error or the receipt with the scheduled transactions, and the
  variables it assigns (\<open>dataGas\<close>, the state, \<open>gasPool\<close>, the header, the log).
\<close>

record 'st applied =
  appliedErr :: "error option"
  appliedReceipt :: "Receipt option"
  appliedScheduled :: "Transaction list"
  appliedDataGas :: uint64
  appliedStatedb :: "'st"
  appliedGasPool :: uint64
  appliedHeader :: Header
  appliedLogged :: "logEntry list"

definition rejected :: "'st producerState \<Rightarrow> uint64 \<Rightarrow> logEntry list \<Rightarrow> error \<Rightarrow> 'st applied" where
  "rejected s dataGas logs err =
     \<lparr>appliedErr = Some err, appliedReceipt = None, appliedScheduled = [],
      appliedDataGas = dataGas, appliedStatedb = statedb s, appliedGasPool = gethGas s,
      appliedHeader = header s, appliedLogged = logs\<rparr>"

text \<open>
  \<open>arbmath.BigDiv\<close> is \<open>big.Int.Div\<close>, Euclidean division; it is only called with a
  positive divisor, where it is \<open>div\<close>. The first component is \<open>dataGas\<close> before the
  clamp to \<open>tx.Gas()\<close>.
\<close>

definition posterDataGas :: "int \<Rightarrow> int \<Rightarrow> uint64 \<times> logEntry list" where
  "posterDataGas gasPrice posterCost =
     (if gasPrice > 0 then
        (let posterCostInL2Gas = posterCost div gasPrice
         in if 0 \<le> posterCostInL2Gas \<and> posterCostInL2Gas < 2 ^ 64
            then (word_of_int posterCostInL2Gas, [])
            else (MaxUint64, [LogCouldNotGetPosterCost]))
      else (0, []))"

definition applyClosure ::
  "'st ArbEnv \<Rightarrow> address \<Rightarrow> 'st SequencingHooks \<Rightarrow> bool \<Rightarrow> Transaction \<Rightarrow> 'st producerState \<Rightarrow> 'st applied" where
  "applyClosure env poster hooks isUserTx tx s =
     (if blockGasLeft s < TxGas \<and> isUserTx then rejected s 0 [] ErrGasLimitReached
      else
        (case Sender env tx of
           Inl err \<Rightarrow> rejected s 0 [] err
         | Inr sender \<Rightarrow>
             (case PreTxFilter hooks (statedb s) tx sender of
                Some err \<Rightarrow> rejected s 0 [] err
              | None \<Rightarrow>
                  (let (dataGas, logs) =
                         posterDataGas (BaseFee (header s)) (GetPosterInfo env (statedb s) tx poster);
                       dataGas = (if dataGas > Gas tx then Gas tx else dataGas);
                       computeGas = Gas tx - dataGas
                   in if computeGas < TxGas \<and> DiscardInvalidTxsEarly hooks
                      then rejected s dataGas logs ErrIntrinsicGas
                      else
                        (let computeGas = (if computeGas < TxGas then TxGas else computeGas)
                         in if computeGas > blockGasLeft s \<and> isUserTx \<and> userTxsProcessed s > 0
                            then rejected s dataGas logs ErrGasLimitReached
                            else
                              (case ApplyTransaction env (statedb s) (header s) (gethGas s) tx
                                      (length (receipts s)) of
                                 Inl err \<Rightarrow> rejected s dataGas logs err
                               | Inr (receipt, scheduled, statedb', gasPool', gasUsed') \<Rightarrow>
                                   \<lparr>appliedErr = PostTxFilter hooks statedb' tx sender dataGas receipt,
                                    appliedReceipt = Some receipt,
                                    appliedScheduled = scheduled,
                                    appliedDataGas = dataGas,
                                    appliedStatedb = statedb',
                                    appliedGasPool = gasPool',
                                    appliedHeader = (header s)\<lparr>headerGasUsed := gasUsed'\<rparr>,
                                    appliedLogged = logs\<rparr>))))))"

text \<open>
  The loop over \<open>receipt.Logs\<close>: the L2 to L1 events of \<open>ArbSys\<close> take their call value
  off the expected balance delta. \<open>txLog.Topics[0]\<close> panics on a log without topics.
\<close>

fun scanLogs :: "'st ArbEnv \<Rightarrow> Log list \<Rightarrow> int \<Rightarrow> logEntry list \<Rightarrow> (int \<times> logEntry list) outcome" where
  "scanLogs env [] expected logs = Returned (expected, logs)"
| "scanLogs env (txLog # rest) expected logs =
     (if Address txLog = ArbSysAddress env then
        (case Topics txLog of
           [] \<Rightarrow> Panic PanicIndexOutOfRange
         | topic0 # _ \<Rightarrow>
             if topic0 = L2ToL1TransactionEventID env then
               (case ParseL2ToL1TransactionLog env txLog of
                  Inl err \<Rightarrow> scanLogs env rest expected (logs @ [LogFailedToParseL2ToL1Transaction err])
                | Inr callvalue \<Rightarrow> scanLogs env rest (expected - callvalue) logs)
             else if topic0 = L2ToL1TxEventID env then
               (case ParseL2ToL1TxLog env txLog of
                  Inl err \<Rightarrow> scanLogs env rest expected (logs @ [LogFailedToParseL2ToL1Tx err])
                | Inr callvalue \<Rightarrow> scanLogs env rest (expected - callvalue) logs)
             else scanLogs env rest expected logs)
      else scanLogs env rest expected logs)"

text \<open>The switch on the transaction kind that adds deposits to the expected balance delta.\<close>

definition depositOf :: "Transaction \<Rightarrow> int" where
  "depositOf tx =
     (case GetInner tx of
        ArbitrumDepositTx v \<Rightarrow> v
      | ArbitrumSubmitRetryableTx v \<Rightarrow> v
      | _ \<Rightarrow> 0)"

text \<open>
  The loop body after the transaction has been chosen: the closure, then the
  bookkeeping. For a user transaction \<open>hooks\<close> is \<open>sequencingHooks\<close> and the error is
  appended to its \<open>TxErrors\<close>; otherwise \<open>hooks\<close> is a fresh no-op record whose
  \<open>TxErrors\<close> nobody reads.
\<close>

definition processTx ::
  "'st ArbEnv \<Rightarrow> address \<Rightarrow> 'st SequencingHooks \<Rightarrow> bool \<Rightarrow> Transaction \<Rightarrow> 'st producerState \<Rightarrow>
   'st producerState outcome" where
  "processTx env poster sequencingHooks isUserTx tx s =
     (let hooks = (if isUserTx then sequencingHooks else noopSequencingHooks);
          r = applyClosure env poster hooks isUserTx tx s;
          s = s\<lparr>statedb := appliedStatedb r, header := appliedHeader r,
                logged := logged s @ appliedLogged r,
                sequencingTxErrors :=
                  (if isUserTx then sequencingTxErrors s @ [appliedErr r] else sequencingTxErrors s)\<rparr>
      in case appliedErr r of
           Some err \<Rightarrow>
             (let s = s\<lparr>logged := logged s @ [LogErrorApplyingTransaction err]\<rparr>
              in if \<not> DiscardInvalidTxsEarly hooks then
                   Returned (s\<lparr>blockGasLeft :=
                                 (if blockGasLeft s > TxGas then blockGasLeft s - TxGas else 0),
                               userTxsProcessed :=
                                 (if isUserTx then userTxsProcessed s + 1 else userTxsProcessed s)\<rparr>)
                 else Returned s)
         | None \<Rightarrow>
             (case appliedReceipt r of
                None \<Rightarrow> Panic PanicNilDereference
              | Some receipt \<Rightarrow>
                  (let expected = expectedBalanceDelta s + depositOf tx;
                       gasPool = appliedGasPool r;
                       dataGas = appliedDataGas r
                   in if gasPool > gethGas s then Panic (PanicGaveBackGas (gasPool - gethGas s))
                      else
                        (let gasUsed = gethGas s - gasPool;
                             computeUsed = gasUsed - dataGas;
                             lessLog = (if gasUsed < dataGas then [LogUsedLessGas (dataGas - gasUsed)] else []);
                             computeUsed = (if gasUsed < dataGas then TxGas
                                            else if computeUsed < TxGas then TxGas else computeUsed)
                         in if gasUsed > Gas tx then Panic (PanicUsedMoreGas (gasUsed - Gas tx))
                            else
                              (case scanLogs env (Logs receipt) expected (logged s @ lessLog) of
                                 Panic p \<Rightarrow> Panic p
                               | Returned (expected', logs') \<Rightarrow>
                                   Returned (s\<lparr>expectedBalanceDelta := expected',
                                               gethGas := gasPool,
                                               redeems := redeems s @ appliedScheduled r,
                                               logged := logs',
                                               blockGasLeft :=
                                                 (if blockGasLeft s > computeUsed
                                                  then blockGasLeft s - computeUsed else 0),
                                               complete := complete s @ [tx],
                                               receipts := receipts s @ [receipt],
                                               userTxsProcessed :=
                                                 (if isUserTx then userTxsProcessed s + 1
                                                  else userTxsProcessed s)\<rparr>))))))"

text \<open>
  One iteration of \<open>for len(txes) > 0 || len(redeems) > 0\<close>: redeems first, in FIFO
  order; a redeem whose retryable is gone is skipped. \<open>time\<close> is \<open>header.Time\<close>.
\<close>

definition loopBody ::
  "'st ArbEnv \<Rightarrow> address \<Rightarrow> 'st SequencingHooks \<Rightarrow> 'st producerState \<Rightarrow> 'st producerState outcome" where
  "loopBody env poster sequencingHooks s =
     (case redeems s of
        tx # rest \<Rightarrow>
          (let s = s\<lparr>redeems := rest\<rparr>
           in case GetInner tx of
                ArbitrumRetryTx ticketId \<Rightarrow>
                  if \<not> OpenRetryable env (statedb s) ticketId (Time (header s)) then Returned s
                  else processTx env poster sequencingHooks False tx s
              | _ \<Rightarrow> Panic PanicNotRetryable)
      | [] \<Rightarrow>
          (case txes s of
             [] \<Rightarrow> Panic PanicIndexOutOfRange
           | tx # rest \<Rightarrow>
               (let s = s\<lparr>txes := rest\<rparr>
                in if GetInner tx \<noteq> ArbitrumInternalTx
                   then processTx env poster sequencingHooks True tx s
                   else processTx env poster sequencingHooks False tx s)))"

text \<open>
  The loop. A transaction can schedule redeems, so the loop has no bound of its own:
  \<open>fuel\<close> bounds the iterations, and \<open>None\<close> says that it ran out.
\<close>

fun txLoop ::
  "'st ArbEnv \<Rightarrow> address \<Rightarrow> 'st SequencingHooks \<Rightarrow> nat \<Rightarrow> 'st producerState \<Rightarrow>
   'st producerState outcome option" where
  "txLoop env poster sequencingHooks fuel s =
     (if length (txes s) > 0 \<or> length (redeems s) > 0 then
        (case fuel of
           0 \<Rightarrow> None
         | Suc fuel' \<Rightarrow>
             (case loopBody env poster sequencingHooks s of
                Panic p \<Rightarrow> Some (Panic p)
              | Returned s' \<Rightarrow> txLoop env poster sequencingHooks fuel' s'))
      else Some (Returned s))"


subsection \<open>The end of ProduceBlockAdvanced\<close>

text \<open>
  Modelled from the spec: \<open>types.NewBlock\<close> is go-ethereum code outside the sources.
  A block has a header and the ordered transactions; \<open>NewBlock\<close> copies the header it
  is given, fills in the hashes derived from the transactions and receipts, and takes
  the transactions in order (no uncles are passed).
\<close>

definition NewBlock :: "'st ArbEnv \<Rightarrow> Header \<Rightarrow> Transaction list \<Rightarrow> Receipt list \<Rightarrow> Block" where
  "NewBlock env h txs rs =
     \<lparr>blockHeader = h\<lparr>TxHash := DeriveTxHash env txs, ReceiptHash := DeriveReceiptHash env rs,
                        Bloom := CreateBloom env rs, UncleHash := EmptyUncleHash env\<rparr>,
      blockTransactions = txs\<rparr>"

record HeaderInfo =
  SendRoot :: hash
  SendCount :: uint64
  L1BlockNumber :: uint64
  ArbOSFormatVersion :: uint64

text \<open>
  Modelled from the spec: \<open>HeaderInfo.UpdateHeaderWithInfo\<close> is go-ethereum code outside
  the sources. The spec has it write the outbox root, the outbox size, the next L1 block
  number and the ArbOS format version "into the extra header info": the \<open>Extra\<close> and
  \<open>MixDigest\<close> fields, which \<open>createNewHeader\<close> leaves unused.
\<close>

definition UpdateHeaderWithInfo :: "HeaderInfo \<Rightarrow> Header \<Rightarrow> Header" where
  "UpdateHeaderWithInfo info h =
     h\<lparr>MixDigest := PutUint64 (SendCount info) @ PutUint64 (L1BlockNumber info) @
                       PutUint64 (ArbOSFormatVersion info) @ replicate 8 0,
       Extra := SendRoot info\<rparr>"

text \<open>\<open>FinalizeBlock\<close>; the header is passed by pointer, and \<open>None\<close> is a \<open>nil\<close> header.\<close>

definition FinalizeBlock :: "'st ArbEnv \<Rightarrow> Header option \<Rightarrow> Transaction list \<Rightarrow> 'st \<Rightarrow> Header option" where
  "FinalizeBlock env h txs state =
     (case h of
        None \<Rightarrow> None
      | Some h \<Rightarrow>
          (let arbitrumHeader =
                 \<lparr>SendRoot = SendMerkleRoot env state, SendCount = SendMerkleSize env state,
                  L1BlockNumber = NextBlockNumber env state,
                  ArbOSFormatVersion = FormatVersion env state\<rparr>
           in Some (UpdateHeaderWithInfo arbitrumHeader h)))"

text \<open>What \<open>ProduceBlockAdvanced\<close> returns and leaves behind.\<close>

record 'st produced =
  producedBlock :: Block
  producedReceipts :: "Receipt list"
  producedStatedb :: "'st"
  producedTxErrors :: "error option list"
  producedLogged :: "logEntry list"

definition touchUpReceipts :: "hash \<Rightarrow> Receipt list \<Rightarrow> Receipt list" where
  "touchUpReceipts blockHash rs =
     map (\<lambda>receipt. receipt\<lparr>receiptBlockHash := blockHash,
                              Logs := map (\<lambda>txLog. txLog\<lparr>logBlockHash := blockHash\<rparr>) (Logs receipt)\<rparr>) rs"

text \<open>The statements after the loop, from the write of \<open>header.Nonce\<close> to the return.\<close>

definition finishBlock ::
  "'st ArbEnv \<Rightarrow> ChainConfig \<Rightarrow> uint64 \<Rightarrow> 'st producerState \<Rightarrow> 'st produced outcome" where
  "finishBlock env chainConfig delayedMessagesRead s =
     (let h = (header s)\<lparr>Nonce := PutUint64 delayedMessagesRead\<rparr>;
          (root, st) = IntermediateRoot env (statedb s);
          h = h\<lparr>Root := root\<rparr>;
          tmpBlock = NewBlock env h (complete s) (receipts s);
          blockHash = BlockHashOf env tmpBlock;
          rs = touchUpReceipts blockHash (receipts s);
          h = (case FinalizeBlock env (Some h) (complete s) st of None \<Rightarrow> h | Some h' \<Rightarrow> h');
          (root, st) = IntermediateRoot env st;
          h = h\<lparr>Root := root\<rparr>;
          block = NewBlock env h (complete s) rs
      in if length (blockTransactions block) \<noteq> length rs
         then Panic (PanicReceiptCount (length (blockTransactions block)) (length rs))
         else
           (let balanceDelta = GetUnexpectedBalanceDelta env st
            in if balanceDelta \<noteq> expectedBalanceDelta s then
                 (if balanceDelta > expectedBalanceDelta s \<or> DebugMode chainConfig
                  then Panic (PanicBalanceDelta balanceDelta (expectedBalanceDelta s))
                  else Returned
                         \<lparr>producedBlock = block, producedReceipts = rs, producedStatedb = st,
                          producedTxErrors = sequencingTxErrors s,
                          producedLogged = logged s @
                            [LogUnexpectedBalanceDelta balanceDelta (expectedBalanceDelta s)]\<rparr>)
               else Returned
                      \<lparr>producedBlock = block, producedReceipts = rs, producedStatedb = st,
                       producedTxErrors = sequencingTxErrors s, producedLogged = logged s\<rparr>))"


subsection \<open>ProduceBlockAdvanced\<close>

text \<open>The variables as the loop finds them: the start transaction is put before \<open>txes\<close>.\<close>

definition initialState ::
  "'st ArbEnv \<Rightarrow> L1IncomingMessageHeader \<Rightarrow> Transaction list \<Rightarrow> Header option \<Rightarrow> 'st \<Rightarrow>
   ChainConfig \<Rightarrow> 'st SequencingHooks \<Rightarrow> 'st producerState" where
  "initialState env l1Header txs lastBlockHeader st chainConfig sequencingHooks =
     (let l1Info = \<lparr>infoPoster = Poster l1Header, infoL1BlockNumber = l1BlockNumberOf l1Header,
                     infoL1Timestamp = Timestamp l1Header\<rparr>;
          h = createNewHeader env lastBlockHeader (Some l1Info) st;
          l1BlockNum = infoL1BlockNumber l1Info;
          startTx = (InternalTxStartBlock env (ChainID chainConfig) (L1BaseFee l1Header)
                       l1BlockNum h lastBlockHeader)\<lparr>GetInner := ArbitrumInternalTx\<rparr>
      in \<lparr>txes = startTx # txs, redeems = [], complete = [], receipts = [],
          expectedBalanceDelta = 0, userTxsProcessed = 0,
          blockGasLeft = PerBlockGasLimit env st, gethGas = GethBlockGasLimit env,
          statedb = st, header = h, sequencingTxErrors = TxErrors sequencingHooks,
          logged = []\<rparr>)"

definition ProduceBlockAdvanced ::
  "'st ArbEnv \<Rightarrow> nat \<Rightarrow> L1IncomingMessageHeader \<Rightarrow> Transaction list \<Rightarrow> uint64 \<Rightarrow> Header option \<Rightarrow> 'st \<Rightarrow>
   ChainConfig \<Rightarrow> 'st SequencingHooks \<Rightarrow> 'st produced outcome option" where
  "ProduceBlockAdvanced env fuel l1Header txs delayedMessagesRead lastBlockHeader st chainConfig sequencingHooks =
     (case OpenSystemArbosState env st of
        Some err \<Rightarrow> Some (Panic (PanicOpenArbosState err))
      | None \<Rightarrow>
          if GetUnexpectedBalanceDelta env st \<noteq> 0 then Some (Panic PanicDirtyStateDB)
          else
            (case txLoop env (Poster l1Header) sequencingHooks fuel
                    (initialState env l1Header txs lastBlockHeader st chainConfig sequencingHooks) of
               None \<Rightarrow> None
             | Some (Panic p) \<Rightarrow> Some (Panic p)
             | Some (Returned s) \<Rightarrow> Some (finishBlock env chainConfig delayedMessagesRead s)))"

section \<open>arbnode/sequencer.go\<close>

definition maxTxDataSize :: int where
  "maxTxDataSize = 112065"

text \<open>
  A queue item: the transaction, \<open>ctx.Err()\<close> of the submitter's context, and the
  submitter's result channel, by a number. Whatever is sent on a result channel is a
  delivery. The queue \<open>txQueue\<close> is a channel of capacity 128: a list, oldest first.
  The model is sequential: nobody else sends to the queue while a batch is assembled.
\<close>

record txQueueItem =
  itemTx :: Transaction
  itemCtxErr :: "error option"
  resultChan :: nat

type_synonym delivery = "txQueueItem \<times> error option"

text \<open>The non-blocking send \<open>select { case s.txQueue <- item: default: }\<close>.\<close>

definition trySend :: "txQueueItem list \<Rightarrow> txQueueItem \<Rightarrow> txQueueItem list option" where
  "trySend queue item = (if length queue < 128 then Some (queue @ [item]) else None)"

text \<open>
  The first loop of \<open>sequenceTransactions\<close>, which assembles the batch. With an empty
  batch it waits in \<open>select { case queueItem = <-s.txQueue: case <-ctx.Done(): return }\<close>.
  When the queue holds an item and the context of the call is done, either case may be
  taken: \<open>ctxDone queue\<close> says whether the select, reached with that queue, takes
  \<open>ctx.Done()\<close>. On an empty queue the wait ends only with the context. Both give
  \<open>CtxDone\<close>, with the queue as it is left and the deliveries made. With a non-empty
  batch the select has a \<open>default\<close> case, and an empty queue ends the batch.
  \<open>Collected\<close> carries \<open>txes\<close>, \<open>queueItems\<close>, \<open>totalBatchSize\<close>, the queue left, and
  the deliveries made.
\<close>

datatype collected =
    CtxDone "txQueueItem list" "delivery list"
  | Collected "Transaction list" "txQueueItem list" int "txQueueItem list" "delivery list"

fun collectLoop ::
  "(Transaction \<Rightarrow> error + byte list) \<Rightarrow> (txQueueItem list \<Rightarrow> bool) \<Rightarrow> txQueueItem list \<Rightarrow>
   Transaction list \<Rightarrow> txQueueItem list \<Rightarrow> int \<Rightarrow> delivery list \<Rightarrow> collected" where
  "collectLoop MarshalBinary ctxDone [] txs queueItems totalBatchSize delivered =
     (if length txs = 0 then CtxDone [] delivered
      else Collected txs queueItems totalBatchSize [] delivered)"
| "collectLoop MarshalBinary ctxDone (queueItem # queue) txs queueItems totalBatchSize delivered =
     (if length txs = 0 \<and> ctxDone (queueItem # queue) then CtxDone (queueItem # queue) delivered
      else
        (case itemCtxErr queueItem of
           Some err \<Rightarrow>
             collectLoop MarshalBinary ctxDone queue txs queueItems totalBatchSize
               (delivered @ [(queueItem, Some err)])
         | None \<Rightarrow>
             (case MarshalBinary (itemTx queueItem) of
                Inl err \<Rightarrow>
                  collectLoop MarshalBinary ctxDone queue txs queueItems totalBatchSize
                    (delivered @ [(queueItem, Some err)])
              | Inr txBytes \<Rightarrow>
                  if int (length txBytes) > maxTxDataSize then
                    collectLoop MarshalBinary ctxDone queue txs queueItems totalBatchSize
                      (delivered @ [(queueItem, Some ErrOversizedData)])
                  else if totalBatchSize + int (length txBytes) > maxTxDataSize then
                    (case trySend queue queueItem of
                       Some queue' \<Rightarrow> Collected txs queueItems totalBatchSize queue' delivered
                     | None \<Rightarrow>
                         Collected txs queueItems totalBatchSize queue
                           (delivered @ [(queueItem, Some ErrOversizedData)]))
                  else
                    collectLoop MarshalBinary ctxDone queue (txs @ [itemTx queueItem])
                      (queueItems @ [queueItem]) (totalBatchSize + int (length txBytes)) delivered)))"

text \<open>A context of the call that is not done while an item is queued: the select takes
  an item whenever there is one.\<close>

definition ctxLive :: "txQueueItem list \<Rightarrow> bool" where
  "ctxLive queue = False"

record SequencerConfig =
  MaxRevertGasReject :: uint64
  MaxAcceptableTimestampDelta :: int

text \<open>
  The sequencer's fields that \<open>sequenceTransactions\<close> reads. \<open>hasL1Reader\<close> is
  \<open>s.l1Reader != nil\<close>; the forwarder is its \<open>PublishTransaction\<close>, \<open>None\<close> when \<open>nil\<close>.
  \<open>MaxAcceptableTimestampDelta\<close> is a \<open>time.Duration\<close>, in nanoseconds.
\<close>

record Sequencer =
  txQueue :: "txQueueItem list"
  hasL1Reader :: bool
  config :: SequencerConfig
  seqL1BlockNumber :: uint64
  seqL1Timestamp :: uint64
  forwarder :: "(Transaction \<Rightarrow> error option) option"

text \<open>
  Outside the sources: the marshalling of a transaction, the transaction streamer
  (\<open>SequenceTransactions\<close> gives its error and \<open>hooks.TxErrors\<close> as it leaves them), the
  clock (\<open>time.Now().Unix()\<close>), \<open>l1pricing.BatchPosterAddress\<close>, and the \<open>float64\<close>
  arithmetic of the staleness test:
  \<open>TimestampDeltaExceeds l1Timestamp timestamp d\<close> is
  \<open>math.Abs(float64(l1Timestamp)-float64(timestamp)) > d.Seconds()\<close>, where the
  \<open>time.Duration\<close> \<open>d\<close> is a number of nanoseconds.
\<close>

record 'st sequencerEnv =
  MarshalBinary :: "Transaction \<Rightarrow> error + byte list"
  SequenceTransactions ::
    "L1IncomingMessageHeader \<Rightarrow> Transaction list \<Rightarrow> 'st SequencingHooks \<Rightarrow> error option \<times> error option list"
  UnixNow :: int
  BatchPosterAddress :: address
  TimestampDeltaExceeds :: "uint64 \<Rightarrow> int \<Rightarrow> int \<Rightarrow> bool"

definition preTxFilter :: "'st \<Rightarrow> Transaction \<Rightarrow> address \<Rightarrow> error option" where
  "preTxFilter state tx sender = None"

definition ReceiptStatusFailed :: uint64 where
  "ReceiptStatusFailed = 0"

definition postTxFilter ::
  "SequencerConfig \<Rightarrow> 'st \<Rightarrow> Transaction \<Rightarrow> address \<Rightarrow> uint64 \<Rightarrow> Receipt \<Rightarrow> error option" where
  "postTxFilter cfg state tx sender dataGas receipt =
     (if Status receipt = ReceiptStatusFailed \<and> GasUsed receipt > dataGas \<and>
         GasUsed receipt - dataGas \<le> MaxRevertGasReject cfg
      then Some ErrExecutionReverted else None)"

definition forwardIfSet :: "Sequencer \<Rightarrow> txQueueItem list \<Rightarrow> bool \<times> delivery list" where
  "forwardIfSet s queueItems =
     (case forwarder s of
        None \<Rightarrow> (False, [])
      | Some publish \<Rightarrow> (True, map (\<lambda>item. (item, publish (itemTx item))) queueItems))"

text \<open>What a call of \<open>sequenceTransactions\<close> leaves: the queue, the deliveries, the log,
  and the header and transactions handed to the streamer, if any.\<close>

record sequenced =
  queueAfter :: "txQueueItem list"
  deliveries :: "delivery list"
  seqLogged :: "logEntry list"
  handedOver :: "(L1IncomingMessageHeader \<times> Transaction list) option"

text \<open>The loop that puts the items back on a role change: \<open>queue full\<close> when it has no room.\<close>

fun requeueAll :: "txQueueItem list \<Rightarrow> txQueueItem list \<Rightarrow> delivery list \<Rightarrow> txQueueItem list \<times> delivery list" where
  "requeueAll [] queue delivered = (queue, delivered)"
| "requeueAll (item # items) queue delivered =
     (case trySend queue item of
        Some queue' \<Rightarrow> requeueAll items queue' delivered
      | None \<Rightarrow> requeueAll items queue (delivered @ [(item, Some ErrQueueFull)]))"

text \<open>
  The last loop, \<open>for i, err := range hooks.TxErrors\<close>, from index \<open>i\<close> on;
  \<open>queueItems[i]\<close> panics out of range. The sequencer compares with \<open>core.ErrGasLimit\<close>.
\<close>

fun deliverResults ::
  "error option list \<Rightarrow> nat \<Rightarrow> txQueueItem list \<Rightarrow> txQueueItem list \<Rightarrow> delivery list \<Rightarrow>
   (txQueueItem list \<times> delivery list) outcome" where
  "deliverResults [] i queueItems queue delivered = Returned (queue, delivered)"
| "deliverResults (err # errs) i queueItems queue delivered =
     (if i \<ge> length queueItems then Panic PanicIndexOutOfRange
      else
        (let queueItem = queueItems ! i
         in if err = Some ErrGasLimit then
              (case trySend queue queueItem of
                 Some queue' \<Rightarrow> deliverResults errs (Suc i) queueItems queue' delivered
               | None \<Rightarrow> deliverResults errs (Suc i) queueItems queue (delivered @ [(queueItem, err)]))
            else deliverResults errs (Suc i) queueItems queue (delivered @ [(queueItem, err)])))"

text \<open>The header and the hooks that \<open>sequenceTransactions\<close> builds for the streamer.\<close>

definition newL2MessageHeader :: "'st sequencerEnv \<Rightarrow> Sequencer \<Rightarrow> L1IncomingMessageHeader" where
  "newL2MessageHeader env s =
     \<lparr>Kind = L1MessageType_L2Message, Poster = BatchPosterAddress env,
      l1BlockNumberOf = seqL1BlockNumber s, Timestamp = word_of_int (UnixNow env),
      RequestId = None, L1BaseFee = None\<rparr>"

definition sequencerHooks :: "Sequencer \<Rightarrow> 'st SequencingHooks" where
  "sequencerHooks s =
     \<lparr>TxErrors = [], DiscardInvalidTxsEarly = True, PreTxFilter = preTxFilter,
      PostTxFilter = postTxFilter (config s)\<rparr>"

text \<open>
  The test that refuses to sequence:
  \<open>s.l1Reader != nil && (l1Block == 0 || math.Abs(float64(l1Timestamp)-float64(timestamp)) >
  s.config.MaxAcceptableTimestampDelta.Seconds())\<close>.
\<close>

definition l1Stale :: "'st sequencerEnv \<Rightarrow> Sequencer \<Rightarrow> bool" where
  "l1Stale env s =
     (hasL1Reader s \<and>
      (seqL1BlockNumber s = 0 \<or>
       TimestampDeltaExceeds env (seqL1Timestamp s) (UnixNow env)
         (MaxAcceptableTimestampDelta (config s))))"

text \<open>\<open>sequenceTransactions\<close> after the batch is assembled.\<close>

definition sequenceBatch ::
  "'st sequencerEnv \<Rightarrow> Sequencer \<Rightarrow> Transaction list \<Rightarrow> txQueueItem list \<Rightarrow> txQueueItem list \<Rightarrow>
   delivery list \<Rightarrow> sequenced outcome" where
  "sequenceBatch env s txs queueItems queue delivered =
     (case forwardIfSet s queueItems of
        (True, forwarded) \<Rightarrow>
          Returned \<lparr>queueAfter = queue, deliveries = delivered @ forwarded, seqLogged = [],
                    handedOver = None\<rparr>
      | (False, _) \<Rightarrow>
          if l1Stale env s
          then Returned \<lparr>queueAfter = queue, deliveries = delivered,
                         seqLogged = [LogCannotSequence], handedOver = None\<rparr>
          else
            (let h = newL2MessageHeader env s;
                 hooks = sequencerHooks s;
                 (err, txErrors) = SequenceTransactions env h txs hooks;
                 err = (if err = None \<and> length txErrors \<noteq> length txs
                        then Some (ErrUnexpectedNumberOfResults (length txErrors) (length txs))
                        else err)
             in if err = Some ErrRetrySequencer then
                  (case forwardIfSet s queueItems of
                     (True, forwarded) \<Rightarrow>
                       Returned \<lparr>queueAfter = queue, deliveries = delivered @ forwarded,
                                 seqLogged = [], handedOver = Some (h, txs)\<rparr>
                   | (False, _) \<Rightarrow>
                       (case requeueAll queueItems queue delivered of
                          (queue', delivered') \<Rightarrow>
                            Returned \<lparr>queueAfter = queue', deliveries = delivered',
                                      seqLogged = [], handedOver = Some (h, txs)\<rparr>))
                else
                  (case err of
                     Some e \<Rightarrow>
                       Returned \<lparr>queueAfter = queue,
                                 deliveries = delivered @ map (\<lambda>queueItem. (queueItem, Some e)) queueItems,
                                 seqLogged = [LogErrorSequencing e], handedOver = Some (h, txs)\<rparr>
                   | None \<Rightarrow>
                       (case deliverResults txErrors 0 queueItems queue delivered of
                          Panic p \<Rightarrow> Panic p
                        | Returned (queue', delivered') \<Rightarrow>
                            Returned \<lparr>queueAfter = queue', deliveries = delivered',
                                      seqLogged = [], handedOver = Some (h, txs)\<rparr>))))"

text \<open>\<open>sequenceTransactions\<close>, called with a context that answers \<open>ctxDone\<close>.\<close>

definition sequenceTransactions ::
  "'st sequencerEnv \<Rightarrow> (txQueueItem list \<Rightarrow> bool) \<Rightarrow> Sequencer \<Rightarrow> sequenced outcome" where
  "sequenceTransactions env ctxDone s =
     (case collectLoop (MarshalBinary env) ctxDone (txQueue s) [] [] 0 [] of
        CtxDone queue delivered \<Rightarrow>
          Returned \<lparr>queueAfter = queue, deliveries = delivered, seqLogged = [], handedOver = None\<rparr>
      | Collected txs queueItems totalBatchSize queue delivered \<Rightarrow>
          sequenceBatch env s txs queueItems queue delivered)"

text \<open>Reading a \<open>collected\<close> value, and the size test of the first loop on an item.\<close>

fun batchTxs :: "collected \<Rightarrow> Transaction list" where
  "batchTxs (CtxDone queue delivered) = []"
| "batchTxs (Collected txs queueItems totalBatchSize queue delivered) = txs"

fun batchItems :: "collected \<Rightarrow> txQueueItem list" where
  "batchItems (CtxDone queue delivered) = []"
| "batchItems (Collected txs queueItems totalBatchSize queue delivered) = queueItems"

fun batchSize :: "collected \<Rightarrow> int" where
  "batchSize (CtxDone queue delivered) = 0"
| "batchSize (Collected txs queueItems totalBatchSize queue delivered) = totalBatchSize"



definition marshalledSize :: "(Transaction \<Rightarrow> error + byte list) \<Rightarrow> Transaction \<Rightarrow> int option" where
  "marshalledSize marshal tx =
     (case marshal tx of Inl err \<Rightarrow> None | Inr txBytes \<Rightarrow> Some (int (length txBytes)))"


definition fits :: "(Transaction \<Rightarrow> error + byte list) \<Rightarrow> Transaction \<Rightarrow> bool" where
  "fits marshal tx =
     (case marshalledSize marshal tx of None \<Rightarrow> False | Some n \<Rightarrow> n \<le> maxTxDataSize)"

text \<open>
  The bytes of a batch: the marshalled transactions, one after the other. The size
  bound of the spec is on their number.
\<close>

definition batchBytes :: "(Transaction \<Rightarrow> error + byte list) \<Rightarrow> Transaction list \<Rightarrow> byte list" where
  "batchBytes marshal txs =
     concat (map (\<lambda>tx. case marshal tx of Inl err \<Rightarrow> [] | Inr txBytes \<Rightarrow> txBytes) txs)"

text \<open>Transactions, queue items and a marshalling to run the sequencer on.\<close>

definition mkTx :: "nat \<Rightarrow> nat \<Rightarrow> Transaction" where
  "mkTx i n = \<lparr>GetInner = OtherTx, Gas = 100000, txPayload = replicate n (of_nat i)\<rparr>"

definition mkItem :: "nat \<Rightarrow> nat \<Rightarrow> txQueueItem" where
  "mkItem i n = \<lparr>itemTx = mkTx i n, itemCtxErr = None, resultChan = i\<rparr>"

definition marshalPayload :: "Transaction \<Rightarrow> error + byte list" where
  "marshalPayload tx = Inr (txPayload tx)"

text \<open>A sequencer with a fresh L1 view and no forwarder, and two streamers: one that
  answers with a result per transaction, one that answers with no results at all.
  The L1 timestamp 1000, the clock 1010 and the bound of 3600 seconds are \<open>float64\<close>
  values, and so is their difference: on them the staleness test is the comparison of
  the exact numbers.\<close>

definition exactDeltaExceeds :: "uint64 \<Rightarrow> int \<Rightarrow> int \<Rightarrow> bool" where
  "exactDeltaExceeds l1Timestamp timestamp d = (\<bar>uint l1Timestamp - timestamp\<bar> * 1000000000 > d)"

definition seqConfig0 :: SequencerConfig where
  "seqConfig0 = \<lparr>MaxRevertGasReject = 0, MaxAcceptableTimestampDelta = 3600000000000\<rparr>"

definition sequencer0 :: Sequencer where
  "sequencer0 =
     \<lparr>txQueue = [mkItem 11 60000, mkItem 12 60000, mkItem 13 40000], hasL1Reader = True,
      config = seqConfig0, seqL1BlockNumber = 100, seqL1Timestamp = 1000, forwarder = None\<rparr>"


definition streamerShort :: "unit sequencerEnv" where
  "streamerShort =
     \<lparr>MarshalBinary = marshalPayload,
      SequenceTransactions = (\<lambda>h txs hooks. (None, [])),
      UnixNow = 1010, BatchPosterAddress = [], TimestampDeltaExceeds = exactDeltaExceeds\<rparr>"

section \<open>The balance the producer expects, as the spec words it\<close>












text \<open>
  A chain to run the producer on. Its state database is one number, the unexpected
  balance delta. A deposit and a retryable submission add their deposit value; any
  other user transaction uses 21000 gas, withdraws 4 through an L2 to L1 event of
  \<open>ArbSys\<close>, and changes the balance by \<open>mint\<close> more than it reports. The per-block gas
  limit is a parameter.
\<close>

definition emptyReceipt :: Receipt where
  "emptyReceipt = \<lparr>Status = 1, GasUsed = 0, Logs = [], receiptBlockHash = []\<rparr>"

definition withdrawLog :: Log where
  "withdrawLog = \<lparr>Address = [100], Topics = [[2]], logData = [4], logBlockHash = []\<rparr>"

definition demoApply ::
  "int \<Rightarrow> int \<Rightarrow> Header \<Rightarrow> uint64 \<Rightarrow> Transaction \<Rightarrow> nat \<Rightarrow>
   error + (Receipt \<times> Transaction list \<times> int \<times> uint64 \<times> uint64)" where
  "demoApply mint st h gasPool tx i =
     (case GetInner tx of
        ArbitrumDepositTx v \<Rightarrow> Inr (emptyReceipt, [], st + v, gasPool, headerGasUsed h)
      | ArbitrumSubmitRetryableTx v \<Rightarrow> Inr (emptyReceipt, [], st + v, gasPool, headerGasUsed h)
      | OtherTx \<Rightarrow>
          if Gas tx < 21000 then Inl ErrIntrinsicGas
          else Inr (emptyReceipt\<lparr>GasUsed := 21000, Logs := [withdrawLog]\<rparr>, [], st - 4 + mint,
                    gasPool - 21000, headerGasUsed h + 21000)
      | _ \<Rightarrow> Inr (emptyReceipt, [], st, gasPool, headerGasUsed h))"

definition demoEnv :: "int \<Rightarrow> uint64 \<Rightarrow> int ArbEnv" where
  "demoEnv mint perBlockGasLimit =
     \<lparr>OpenSystemArbosState = (\<lambda>st. None),
      GetUnexpectedBalanceDelta = (\<lambda>st. st),
      BaseFeeWei = (\<lambda>st. 100),
      PerBlockGasLimit = (\<lambda>st. perBlockGasLimit),
      GethBlockGasLimit = 1125899906842624,
      EmptyUncleHash = [],
      HeaderHash = (\<lambda>h. []),
      InternalTxStartBlock = (\<lambda>chainId l1BaseFee l1BlockNum h lastHeader.
         \<lparr>GetInner = ArbitrumInternalTx, Gas = 0, txPayload = []\<rparr>),
      Sender = (\<lambda>tx. Inr [1]),
      GetPosterInfo = (\<lambda>st tx p. 100000),
      OpenRetryable = (\<lambda>st ticket time. True),
      ApplyTransaction = demoApply mint,
      ArbSysAddress = [100],
      L2ToL1TransactionEventID = [1],
      L2ToL1TxEventID = [2],
      ParseL2ToL1TransactionLog = (\<lambda>l. Inr 4),
      ParseL2ToL1TxLog = (\<lambda>l. Inr 4),
      IntermediateRoot = (\<lambda>st. ([], st)),
      DeriveTxHash = (\<lambda>txs. []),
      DeriveReceiptHash = (\<lambda>rs. []),
      CreateBloom = (\<lambda>rs. []),
      BlockHashOf = (\<lambda>b. [7]),
      SendMerkleRoot = (\<lambda>st. []),
      SendMerkleSize = (\<lambda>st. 0),
      NextBlockNumber = (\<lambda>st. 0),
      FormatVersion = (\<lambda>st. 1)\<rparr>"

definition demoL1Header :: L1IncomingMessageHeader where
  "demoL1Header = \<lparr>Kind = L1MessageType_L2Message, Poster = [9], l1BlockNumberOf = 50,
     Timestamp = 1000, RequestId = None, L1BaseFee = None\<rparr>"

definition demoChain :: "bool \<Rightarrow> ChainConfig" where
  "demoChain debug = \<lparr>ChainID = 412346, DebugMode = debug\<rparr>"

definition depositTx :: Transaction where
  "depositTx = \<lparr>GetInner = ArbitrumDepositTx 10, Gas = 0, txPayload = []\<rparr>"


definition withdrawTx :: Transaction where
  "withdrawTx = \<lparr>GetInner = OtherTx, Gas = 100000, txPayload = []\<rparr>"

definition startTx :: Transaction where
  "startTx = \<lparr>GetInner = ArbitrumInternalTx, Gas = 0, txPayload = []\<rparr>"

text \<open>The run of the deposit and the withdrawal: the header, the receipts and the result.\<close>

definition demoHeader :: Header where
  "demoHeader =
     \<lparr>ParentHash = replicate 32 0, UncleHash = [], Coinbase = [9], Root = replicate 32 0,
      TxHash = replicate 32 0, ReceiptHash = replicate 32 0, Bloom = replicate 256 0,
      Difficulty = 1, Number = 0, GasLimit = 1125899906842624, headerGasUsed = 21000,
      Time = 1000, Extra = [], MixDigest = replicate 32 0, Nonce = [0, 0, 0, 0, 0, 0, 0, 0],
      BaseFee = 100\<rparr>"

definition demoReceipts :: "hash \<Rightarrow> Receipt list" where
  "demoReceipts blockHash =
     [emptyReceipt\<lparr>receiptBlockHash := blockHash\<rparr>, emptyReceipt\<lparr>receiptBlockHash := blockHash\<rparr>,
      \<lparr>Status = 1, GasUsed = 21000, Logs = [withdrawLog\<lparr>logBlockHash := blockHash\<rparr>],
       receiptBlockHash = blockHash\<rparr>]"



definition demoProduced :: "int produced" where
  "demoProduced =
     \<lparr>producedBlock =
        \<lparr>blockHeader = demoHeader\<lparr>Nonce := [0, 0, 0, 0, 0, 0, 0, 5], Root := [], TxHash := [],
             ReceiptHash := [], Bloom := [],
             MixDigest := [0, 0, 0, 0, 0, 0, 0, 0, 0, 0, 0, 0, 0, 0, 0, 0, 0, 0, 0, 0,
                           0, 0, 0, 1, 0, 0, 0, 0, 0, 0, 0, 0]\<rparr>,
         blockTransactions = [startTx, depositTx, withdrawTx]\<rparr>,
      producedReceipts = demoReceipts [7],
      producedStatedb = 6, producedTxErrors = [None, None], producedLogged = []\<rparr>"

text \<open>No state transition schedules a redeem: then the loop is bounded by the
  transactions it is given.\<close>

definition schedulesNothing :: "'st ArbEnv \<Rightarrow> bool" where
  "schedulesNothing env =
     (\<forall>st h gasPool tx i receipt scheduled st' gasPool' gasUsed'.
        ApplyTransaction env st h gasPool tx i = Inr (receipt, scheduled, st', gasPool', gasUsed') \<longrightarrow>
        scheduled = [])"

section \<open>Properties of VerifySignature\<close>

lemma mask_test_bit: "((push_bit i 1 :: uint64) AND m \<noteq> 0) = bit m i"
proof
  assume "(push_bit i 1 :: uint64) AND m \<noteq> 0"
  then obtain n where "bit ((push_bit i 1 :: uint64) AND m) n"
    by (auto simp: bit_eq_iff)
  then show "bit m i"
    by (auto simp: bit_simps)
next
  assume b: "bit m i"
  then have "i < 64"
    using bit_imp_le_length [of m i] by simp
  with b have "bit ((push_bit i 1 :: uint64) AND m) i"
    by (simp add: bit_simps)
  then show "(push_bit i 1 :: uint64) AND m \<noteq> 0"
    by auto
qed

lemma signersLoop_spec:
  "signersLoop ks m i acc c =
     (acc @ map (\<lambda>j. ks ! (j - i)) (filter (\<lambda>j. bit m j) [i..<i + length ks]),
      c + of_nat (length (filter (\<lambda>j. \<not> bit m j) [i..<i + length ks])))"
proof (induction ks arbitrary: i acc c)
  case Nil
  then show ?case by simp
next
  case (Cons k ks)
  have up: "[i..<i + length (k # ks)] = i # [Suc i..<Suc i + length ks]"
    by (subst upt_rec) simp
  have idx: "map (\<lambda>j. (k # ks) ! (j - i)) (filter P [Suc i..<Suc i + length ks]) =
             map (\<lambda>j. ks ! (j - Suc i)) (filter P [Suc i..<Suc i + length ks])" for P
    by (rule map_cong) (auto simp: nth_Cons')
  show ?case
    unfolding up
    using mask_test_bit [of i m]
    by (simp add: Cons.IH idx del: upt_Suc)
qed

lemma signersLoop_eq:
  "signersLoop keys m 0 [] 0 = (signersOf keys m, of_nat (nonSignerCount keys m))"
  by (simp add: signersLoop_spec signersOf_def nonSignerCount_def)

lemma nonSignerCount_le: "nonSignerCount keys m \<le> length keys"
  unfolding nonSignerCount_def
  using length_filter_le [of "\<lambda>i. \<not> bit m i" "[0..<length keys]"] by simp

text \<open>
  C1. For a keyset with at most 64 keys and any signers mask, \<open>VerifySignature\<close> counts the
  keys whose mask bit is clear; when that count reaches \<open>AssumedHonest\<close> the result is the
  not-enough-signers error whatever the BLS functions are, and otherwise the result is
  the BLS verification of the aggregate of exactly the keys whose bits are set: its
  error, the bad-signature error when it answers false, success when it answers true.
\<close>

theorem VerifySignature_threshold:
  assumes "length (PubKeys keyset) \<le> 64"
  shows "VerifySignature agg vfy keyset s data sig =
     (if unat (AssumedHonest keyset) \<le> nonSignerCount (PubKeys keyset) s then Some ErrNotEnoughSigners
      else case vfy sig data (agg (signersOf (PubKeys keyset) s)) of
             Inl err \<Rightarrow> Some err
           | Inr success \<Rightarrow> if success then None else Some ErrBadSignature)"
proof -
  have "nonSignerCount (PubKeys keyset) s \<le> 64"
    using nonSignerCount_le [of "PubKeys keyset" s] assms by simp
  then have u: "unat (of_nat (nonSignerCount (PubKeys keyset) s) :: uint64) = nonSignerCount (PubKeys keyset) s"
    by (simp add: unat_of_nat)
  show ?thesis
    by (simp add: VerifySignature_def signersLoop_eq word_le_nat_alt u split: sum.splits)
qed

theorem VerifySignature_threshold_witness:
  "length (PubKeys \<lparr>AssumedHonest = 2, PubKeys = [10, 20, 30 :: nat]\<rparr>) \<le> 64 \<and>
   nonSignerCount [10, 20, 30 :: nat] 4 = 2 \<and>
   VerifySignature sum_list (\<lambda>sig data pk. Inr (sig = pk))
     \<lparr>AssumedHonest = 2, PubKeys = [10, 20, 30 :: nat]\<rparr> 4 [] (30 :: nat) = Some ErrNotEnoughSigners \<and>
   signersOf [10, 20, 30 :: nat] 7 = [10, 20, 30] \<and>
   VerifySignature sum_list (\<lambda>sig data pk. Inr (sig = pk))
     \<lparr>AssumedHonest = 1, PubKeys = [10, 20, 30 :: nat]\<rparr> 7 [] (60 :: nat) = None \<and>
   VerifySignature sum_list (\<lambda>sig data pk. Inr (sig = pk))
     \<lparr>AssumedHonest = 1, PubKeys = [10, 20, 30 :: nat]\<rparr> 7 [] (61 :: nat) = Some ErrBadSignature"
  using VerifySignature_threshold [of "\<lparr>AssumedHonest = 2, PubKeys = [10, 20, 30 :: nat]\<rparr>"
          sum_list "\<lambda>sig data pk. Inr (sig = pk)" 4 "[]" 30]
        VerifySignature_threshold [of "\<lparr>AssumedHonest = 1, PubKeys = [10, 20, 30 :: nat]\<rparr>"
          sum_list "\<lambda>sig data pk. Inr (sig = pk)" 7 "[]" 60]
        VerifySignature_threshold [of "\<lparr>AssumedHonest = 1, PubKeys = [10, 20, 30 :: nat]\<rparr>"
          sum_list "\<lambda>sig data pk. Inr (sig = pk)" 7 "[]" 61]
  by (simp add: nonSignerCount_def signersOf_def upt_rec)

text \<open>
  C10. A keyset whose \<open>AssumedHonest\<close> is 0 rejects every signers mask with the
  not-enough-signers error, also the mask with every key bit set: the comparison
  \<open>numNonSigners >= 0\<close> holds for every unsigned count.
\<close>

theorem VerifySignature_zero_threshold:
  "AssumedHonest keyset = 0 \<Longrightarrow>
   VerifySignature agg vfy keyset s data sig = Some ErrNotEnoughSigners"
  by (simp add: VerifySignature_def split: prod.splits)

theorem VerifySignature_zero_threshold_witness:
  "AssumedHonest \<lparr>AssumedHonest = 0, PubKeys = [10, 20, 30 :: nat]\<rparr> = 0 \<and>
   nonSignerCount [10, 20, 30 :: nat] 7 = 0 \<and>
   VerifySignature sum_list (\<lambda>sig data pk. Inr (sig = pk))
     \<lparr>AssumedHonest = 0, PubKeys = [10, 20, 30 :: nat]\<rparr> 7 [] (60 :: nat) = Some ErrNotEnoughSigners"
  using VerifySignature_zero_threshold [of "\<lparr>AssumedHonest = 0, PubKeys = [10, 20, 30 :: nat]\<rparr>"
          sum_list "\<lambda>sig data pk. Inr (sig = pk)" 7 "[]" 60]
  by (simp add: nonSignerCount_def upt_rec)

section \<open>The keyset codec\<close>

lemma BigEndianUint64_PutUint64: "BigEndianUint64 (PutUint64 v) = v"
proof (rule bit_word_eqI)
  fix n :: nat
  assume "n < LENGTH(64)"
  then have n: "n < 64" by simp
  have e: "bit (BigEndianUint64 (PutUint64 v)) n =
        (56 \<le> n \<and> n - 56 < 64 \<and> n - 56 < 8 \<and> bit v (56 + (n - 56)) \<or>
         48 \<le> n \<and> n - 48 < 64 \<and> n - 48 < 8 \<and> bit v (48 + (n - 48)) \<or>
         40 \<le> n \<and> n - 40 < 64 \<and> n - 40 < 8 \<and> bit v (40 + (n - 40)) \<or>
         32 \<le> n \<and> n - 32 < 64 \<and> n - 32 < 8 \<and> bit v (32 + (n - 32)) \<or>
         24 \<le> n \<and> n - 24 < 64 \<and> n - 24 < 8 \<and> bit v (24 + (n - 24)) \<or>
         16 \<le> n \<and> n - 16 < 64 \<and> n - 16 < 8 \<and> bit v (16 + (n - 16)) \<or>
         8 \<le> n \<and> n - 8 < 64 \<and> n - 8 < 8 \<and> bit v (8 + (n - 8)) \<or>
         n < 8 \<and> bit v n)"
    using n by (simp add: PutUint64_def bit_simps)
  consider "n < 8" | "8 \<le> n" "n < 16" | "16 \<le> n" "n < 24" | "24 \<le> n" "n < 32"
    | "32 \<le> n" "n < 40" | "40 \<le> n" "n < 48" | "48 \<le> n" "n < 56" | "56 \<le> n" "n < 64"
    using n by linarith
  then show "bit (BigEndianUint64 (PutUint64 v)) n = bit v n"
  proof cases
    case 1 then show ?thesis unfolding e by simp
  next
    case 2 then show ?thesis unfolding e by (simp add: less_diff_conv2)
  next
    case 3 then show ?thesis unfolding e by (simp add: less_diff_conv2)
  next
    case 4 then show ?thesis unfolding e by (simp add: less_diff_conv2)
  next
    case 5 then show ?thesis unfolding e by (simp add: less_diff_conv2)
  next
    case 6 then show ?thesis unfolding e by (simp add: less_diff_conv2)
  next
    case 7 then show ?thesis unfolding e by (simp add: less_diff_conv2)
  next
    case 8 then show ?thesis unfolding e by (simp add: less_diff_conv2)
  qed
qed

lemma length_PutUint64: "length (PutUint64 v) = 8"
  by (simp add: PutUint64_def)

lemma ReadFull_prefix: "ReadFull (xs @ rest) (length xs) = Inr (xs, rest)"
  by (cases xs) (simp_all add: ReadFull_def)

lemma readUint64BE_PutUint64: "readUint64BE (PutUint64 v @ rest) = Inr (v, rest)"
  using ReadFull_prefix [of "PutUint64 v" rest]
  by (simp add: readUint64BE_def length_PutUint64 BigEndianUint64_PutUint64)

lemma writeKeys_bytes:
  "writeKeys f pks wr = Inr (wr @ concat (map (keyBytes f) pks))"
  by (induction pks arbitrary: wr) (simp_all add: Write_def keyBytes_def Let_def)

lemma length_prefix_decodes:
  assumes "l < 65536"
  shows "unat (of_nat (l div 256) :: byte) * 256 + unat (of_nat (l mod 256) :: byte) = l"
proof -
  have "l div 256 < 256" using assms by simp
  then have "unat (of_nat (l div 256) :: byte) = l div 256"
    by (simp add: unat_of_nat)
  moreover have "unat (of_nat (l mod 256) :: byte) = l mod 256"
    by (simp add: unat_of_nat)
  ultimately show ?thesis by simp
qed

lemma readKeys_written:
  assumes "\<forall>pk \<in> set pks. g (f pk) False = Inr pk \<and> length (f pk) < 65536"
  shows "readKeys g (length pks) (concat (map (keyBytes f) pks) @ rest) acc = Inr (acc @ pks)"
  using assms
proof (induction pks arbitrary: acc)
  case Nil
  then show ?case by simp
next
  case (Cons pk pks)
  let ?hi = "of_nat (length (f pk) div 256) :: byte"
  let ?lo = "of_nat (length (f pk) mod 256) :: byte"
  let ?tail = "concat (map (keyBytes f) pks) @ rest"
  have pk: "g (f pk) False = Inr pk" and len: "length (f pk) < 65536"
    using Cons.prems by simp_all
  have r2: "ReadFull (concat (map (keyBytes f) (pk # pks)) @ rest) 2 = Inr ([?hi, ?lo], f pk @ ?tail)"
    by (simp add: ReadFull_def keyBytes_def)
  have rk: "ReadFull (f pk @ ?tail) (unat ([?hi, ?lo] ! 0) * 256 + unat ([?hi, ?lo] ! 1)) = Inr (f pk, ?tail)"
    using ReadFull_prefix [of "f pk" ?tail] length_prefix_decodes [OF len] by simp
  have "readKeys g (length (pk # pks)) (concat (map (keyBytes f) (pk # pks)) @ rest) acc
        = readKeys g (length pks) ?tail (acc @ [pk])"
    using r2 rk pk by (simp del: concat.simps map_append)
  also have "\<dots> = Inr ((acc @ [pk]) @ pks)"
    using Cons.prems by (intro Cons.IH) simp
  finally show ?case by simp
qed

text \<open>
  C7. For a keyset with at most 64 keys, \<open>Serialize\<close> into an empty buffer succeeds and
  \<open>DeserializeKeyset\<close> of the bytes written gives the keyset back: the same
  \<open>AssumedHonest\<close> and the same keys in order. The functions outside the sources enter
  as hypotheses: the integer reader reads back what the integer writer wrote, and for
  each key of the keyset \<open>PublicKeyFromBytes(_, false)\<close> reads back what
  \<open>PublicKeyToBytes\<close> wrote, which fits the two length bytes.
\<close>

theorem keyset_roundtrip:
  assumes n: "length (PubKeys keyset) \<le> 64"
    and u64: "\<forall>v rest. Uint64FromReader (enc v @ rest) = Inr (v, rest)"
    and keys: "\<forall>pk \<in> set (PubKeys keyset).
                 PublicKeyFromBytes (PublicKeyToBytes pk) False = Inr pk \<and>
                 length (PublicKeyToBytes pk) < 65536"
  shows "\<exists>bytes. Serialize enc PublicKeyToBytes keyset [] = Inr bytes \<and>
                 DeserializeKeyset Uint64FromReader PublicKeyFromBytes bytes = Inr keyset"
proof -
  let ?n = "of_nat (length (PubKeys keyset)) :: uint64"
  let ?kb = "concat (map (keyBytes PublicKeyToBytes) (PubKeys keyset))"
  let ?bytes = "enc (AssumedHonest keyset) @ enc ?n @ ?kb"
  have ser: "Serialize enc PublicKeyToBytes keyset [] = Inr ?bytes"
    by (simp add: Serialize_def Uint64ToWriter_def Write_def writeKeys_bytes)
  have un: "unat ?n = length (PubKeys keyset)"
    using n by (simp add: unat_of_nat)
  then have le: "\<not> ?n > 64"
    using n by (simp add: word_less_nat_alt)
  have rk: "readKeys PublicKeyFromBytes (unat ?n) ?kb [] = Inr (PubKeys keyset)"
    using readKeys_written [where pks = "PubKeys keyset" and g = PublicKeyFromBytes
        and f = PublicKeyToBytes and rest = "[]" and acc = "[]"] keys un
    by simp
  have "DeserializeKeyset Uint64FromReader PublicKeyFromBytes ?bytes = Inr keyset"
    using u64 le rk by (simp add: DeserializeKeyset_def)
  with ser show ?thesis by blast
qed

theorem keyset_roundtrip_witness:
  "length (PubKeys \<lparr>AssumedHonest = 2, PubKeys = [[1, 2, 3], [4, 5 :: byte]]\<rparr>) \<le> 64 \<and>
   (\<forall>v rest. readUint64BE (PutUint64 v @ rest) = Inr (v, rest)) \<and>
   length [1, 2, 3 :: byte] < 65536 \<and> length [4, 5 :: byte] < 65536 \<and>
   Serialize PutUint64 (\<lambda>pk. pk) \<lparr>AssumedHonest = 2, PubKeys = [[1, 2, 3], [4, 5 :: byte]]\<rparr> [] =
     Inr [0, 0, 0, 0, 0, 0, 0, 2, 0, 0, 0, 0, 0, 0, 0, 2, 0, 3, 1, 2, 3, 0, 2, 4, 5] \<and>
   (\<exists>bytes. Serialize PutUint64 (\<lambda>pk. pk) \<lparr>AssumedHonest = 2, PubKeys = [[1, 2, 3], [4, 5 :: byte]]\<rparr> [] = Inr bytes \<and>
      DeserializeKeyset readUint64BE (\<lambda>buf trusted. Inr buf) bytes =
        Inr \<lparr>AssumedHonest = 2, PubKeys = [[1, 2, 3], [4, 5 :: byte]]\<rparr>)"
proof -
  let ?ks = "\<lparr>AssumedHonest = 2, PubKeys = [[1, 2, 3], [4, 5 :: byte]]\<rparr>"
  have h1: "length (PubKeys ?ks) \<le> 64" by simp
  have h2: "\<forall>v rest. readUint64BE (PutUint64 v @ rest) = Inr (v, rest)"
    by (simp add: readUint64BE_PutUint64)
  have h3: "\<forall>pk \<in> set (PubKeys ?ks).
      (\<lambda>buf trusted. Inr buf :: error + byte list) ((\<lambda>pk. pk) pk) False = Inr pk \<and> length pk < 65536"
    by simp
  have ser: "Serialize PutUint64 (\<lambda>pk. pk) ?ks [] =
     Inr [0, 0, 0, 0, 0, 0, 0, 2, 0, 0, 0, 0, 0, 0, 0, 2, 0, 3, 1, 2, 3, 0, 2, 4, 5]"
    by (simp add: Serialize_def Uint64ToWriter_def Write_def PutUint64_def)
  show ?thesis
    using h1 h2 ser keyset_roundtrip [OF h1 h2 h3] by auto
qed

section \<open>The inbox batch serializer\<close>

lemma SerializeBatch_error:
  "serialized m = None \<Longrightarrow> GetData abi m client = Returned (Inl err) \<Longrightarrow>
   SerializeBatch abi m client = Returned (Inl err, m)"
  by (simp add: SerializeBatch_def Let_def)

text \<open>
  C8. For a batch whose serialization is not cached yet and whose \<open>GetData\<close> returns
  payload bytes, \<open>Serialize\<close> returns 40 header bytes (the five fields \<open>minTimestamp\<close>,
  \<open>maxTimestamp\<close>, \<open>minBlockNumber\<close>, \<open>maxBlockNumber\<close>, \<open>afterDelayedCount\<close>, 8 bytes
  big-endian each, in that order) followed by the payload, and stores them in the batch;
  a second call returns the same bytes whatever the client is, so without fetching.
\<close>

theorem SerializeBatch_header_payload_cached:
  assumes "serialized m = None" and "GetData abi m client = Returned (Inr data)"
  shows "SerializeBatch abi m client =
           Returned (Inr (specBatchHeader m @ data), m\<lparr>serialized := Some (specBatchHeader m @ data)\<rparr>) \<and>
         length (specBatchHeader m) = 40 \<and>
         (\<forall>client'. SerializeBatch abi (m\<lparr>serialized := Some (specBatchHeader m @ data)\<rparr>) client' =
           Returned (Inr (specBatchHeader m @ data), m\<lparr>serialized := Some (specBatchHeader m @ data)\<rparr>))"
  using assms
  by (simp add: SerializeBatch_def headerVals_def length_PutUint64 specBatchHeader_def Let_def)

theorem SerializeBatch_header_payload_cached_witness:
  "serialized batch0 = None \<and> GetData abi0 batch0 client0 = Returned (Inr [170, 187]) \<and>
   SerializeBatch abi0 batch0 client0 =
     Returned (Inr [0,0,0,0,0,0,0,1, 0,0,0,0,0,0,0,2, 0,0,0,0,0,0,0,3, 0,0,0,0,0,0,0,4,
                    0,0,0,0,0,0,0,5, 170, 187],
       batch0\<lparr>serialized := Some [0,0,0,0,0,0,0,1, 0,0,0,0,0,0,0,2, 0,0,0,0,0,0,0,3,
                    0,0,0,0,0,0,0,4, 0,0,0,0,0,0,0,5, 170, 187]\<rparr>) \<and>
   SerializeBatch abi0
       (batch0\<lparr>serialized := Some [0,0,0,0,0,0,0,1, 0,0,0,0,0,0,0,2, 0,0,0,0,0,0,0,3,
                    0,0,0,0,0,0,0,4, 0,0,0,0,0,0,0,5, 170, 187]\<rparr>) deadClient =
     Returned (Inr [0,0,0,0,0,0,0,1, 0,0,0,0,0,0,0,2, 0,0,0,0,0,0,0,3, 0,0,0,0,0,0,0,4,
                    0,0,0,0,0,0,0,5, 170, 187],
       batch0\<lparr>serialized := Some [0,0,0,0,0,0,0,1, 0,0,0,0,0,0,0,2, 0,0,0,0,0,0,0,3,
                    0,0,0,0,0,0,0,4, 0,0,0,0,0,0,0,5, 170, 187]\<rparr>)"
proof -
  have h1: "serialized batch0 = None" by (simp add: batch0_def)
  have h2: "GetData abi0 batch0 client0 = Returned (Inr [170, 187])"
    by (simp add: GetData_def batch0_def client0_def abi0_def batchDataTxInput_def)
  have hd: "specBatchHeader batch0 =
      [0,0,0,0,0,0,0,1, 0,0,0,0,0,0,0,2, 0,0,0,0,0,0,0,3, 0,0,0,0,0,0,0,4, 0,0,0,0,0,0,0,5]"
    by (simp add: specBatchHeader_def batch0_def PutUint64_def)
  show ?thesis
    using h1 h2 SerializeBatch_header_payload_cached [OF h1 h2] by (simp add: hd)
qed

section \<open>The sequencer's batches\<close>

lemma collectLoop_step:
  "\<not> (length txs = 0 \<and> ctx (q # queue)) \<Longrightarrow>
   collectLoop M ctx (q # queue) txs items tot delivered =
     (case itemCtxErr q of
        Some err \<Rightarrow> collectLoop M ctx queue txs items tot (delivered @ [(q, Some err)])
      | None \<Rightarrow>
          (case M (itemTx q) of
             Inl err \<Rightarrow> collectLoop M ctx queue txs items tot (delivered @ [(q, Some err)])
           | Inr txBytes \<Rightarrow>
               if int (length txBytes) > maxTxDataSize then
                 collectLoop M ctx queue txs items tot (delivered @ [(q, Some ErrOversizedData)])
               else if tot + int (length txBytes) > maxTxDataSize then
                 (if length queue < 128 then Collected txs items tot (queue @ [q]) delivered
                  else Collected txs items tot queue (delivered @ [(q, Some ErrOversizedData)]))
               else
                 collectLoop M ctx queue (txs @ [itemTx q]) (items @ [q])
                   (tot + int (length txBytes)) delivered))"
  by (auto simp: trySend_def split: option.splits sum.splits)

lemma batchBytes_snoc:
  "M tx = Inr bs \<Longrightarrow> int (length (batchBytes M (txs @ [tx]))) = int (length (batchBytes M txs)) + int (length bs)"
  by (simp add: batchBytes_def)

lemma collectLoop_invariant:
  "txs = map itemTx items \<Longrightarrow>
   (\<forall>q \<in> set items. fits M (itemTx q)) \<Longrightarrow>
   tot = int (length (batchBytes M txs)) \<Longrightarrow>
   tot \<le> maxTxDataSize \<Longrightarrow>
   collectLoop M ctx queue txs items tot delivered = r \<Longrightarrow>
   batchTxs r = map itemTx (batchItems r) \<and>
   (\<forall>q \<in> set (batchItems r). fits M (itemTx q)) \<and>
   batchSize r = int (length (batchBytes M (batchTxs r))) \<and>
   batchSize r \<le> maxTxDataSize"
proof (induction queue arbitrary: txs items tot delivered)
  case Nil
  then show ?case by (cases "items = []") (auto simp: maxTxDataSize_def batchBytes_def)
next
  case (Cons q queue)
  show ?case
  proof (cases "length txs = 0 \<and> ctx (q # queue)")
    case True
    with Cons.prems(5) have "r = CtxDone (q # queue) delivered" by auto
    then show ?thesis by (simp add: batchBytes_def maxTxDataSize_def)
  next
    case False
    note step = collectLoop_step [where txs = txs and ctx = ctx and q = q and queue = queue and M = M
        and items = items and tot = tot and delivered = delivered, OF False]
    show ?thesis
    proof (cases "itemCtxErr q")
      case (Some e)
      have "collectLoop M ctx queue txs items tot (delivered @ [(q, Some e)]) = r"
        unfolding Cons.prems(5) [symmetric] step using Some by simp
      with Cons.prems(1-4) show ?thesis by (intro Cons.IH)
    next
      case None
      show ?thesis
      proof (cases "M (itemTx q)")
        case (Inl e)
        have "collectLoop M ctx queue txs items tot (delivered @ [(q, Some e)]) = r"
          unfolding Cons.prems(5) [symmetric] step using None Inl by simp
        with Cons.prems(1-4) show ?thesis by (intro Cons.IH)
      next
        case (Inr bs)
        consider (big) "int (length bs) > maxTxDataSize"
          | (full) "int (length bs) \<le> maxTxDataSize" "tot + int (length bs) > maxTxDataSize"
          | (add) "int (length bs) \<le> maxTxDataSize" "tot + int (length bs) \<le> maxTxDataSize"
          by linarith
        then show ?thesis
        proof cases
          case big
          have "collectLoop M ctx queue txs items tot (delivered @ [(q, Some ErrOversizedData)]) = r"
            unfolding Cons.prems(5) [symmetric] step using None Inr big by simp
          with Cons.prems(1-4) show ?thesis by (intro Cons.IH)
        next
          case full
          have "r = (if length queue < 128 then Collected txs items tot (queue @ [q]) delivered
                     else Collected txs items tot queue (delivered @ [(q, Some ErrOversizedData)]))"
            unfolding Cons.prems(5) [symmetric] step using None Inr full by simp
          with Cons.prems(1-4) show ?thesis
            by (cases "length queue < 128") simp_all
        next
          case add
          have f: "fits M (itemTx q)"
            using Inr add by (simp add: fits_def marshalledSize_def)
          have "collectLoop M ctx queue (txs @ [itemTx q]) (items @ [q]) (tot + int (length bs)) delivered = r"
            unfolding Cons.prems(5) [symmetric] step using None Inr add by simp
          moreover have "txs @ [itemTx q] = map itemTx (items @ [q])"
            using Cons.prems(1) by simp
          moreover have "\<forall>x \<in> set (items @ [q]). fits M (itemTx x)"
            using Cons.prems(2) f by simp
          moreover have "tot + int (length bs) = int (length (batchBytes M (txs @ [itemTx q])))"
            using Cons.prems(3) batchBytes_snoc [where M = M and tx = "itemTx q" and bs = bs and txs = txs, OF Inr] by simp
          ultimately show ?thesis
            using add(2) by (intro Cons.IH)
        qed
      qed
    qed
  qed
qed




lemma collectLoop_batch:
  "batchTxs (collectLoop M ctx queue [] [] 0 []) = map itemTx (batchItems (collectLoop M ctx queue [] [] 0 [])) \<and>
   (\<forall>q \<in> set (batchItems (collectLoop M ctx queue [] [] 0 [])). fits M (itemTx q)) \<and>
   batchSize (collectLoop M ctx queue [] [] 0 []) =
     int (length (batchBytes M (batchTxs (collectLoop M ctx queue [] [] 0 [])))) \<and>
   batchSize (collectLoop M ctx queue [] [] 0 []) \<le> maxTxDataSize"
  by (rule collectLoop_invariant [where items = "[]" and txs = "[]" and tot = 0 and delivered = "[]"])
     (simp_all add: maxTxDataSize_def batchBytes_def)



lemma exactDelta_fresh: "\<not> exactDeltaExceeds 1000 1010 3600000000000"
  by (simp add: exactDeltaExceeds_def)




section \<open>The sequencer and the streamer's results\<close>

lemma sequenceTransactions_Collected:
  "collectLoop (MarshalBinary env) ctx (txQueue s) [] [] 0 [] = Collected txs queueItems tot queue delivered \<Longrightarrow>
   sequenceTransactions env ctx s = sequenceBatch env s txs queueItems queue delivered"
  by (simp add: sequenceTransactions_def)

lemma deliverResults_no_panic:
  "i + length errs \<le> length queueItems \<Longrightarrow> deliverResults errs i queueItems queue delivered \<noteq> Panic p"
proof (induction errs arbitrary: i queue delivered)
  case Nil
  then show ?case by simp
next
  case (Cons e errs)
  then have i: "i < length queueItems" and n: "Suc i + length errs \<le> length queueItems"
    by simp_all
  show ?case
    using i Cons.IH [OF n]
    by (simp add: Let_def split: option.splits)
qed

lemma sequenceTransactions_never_panics: "sequenceTransactions env ctx s \<noteq> Panic p"
proof (cases "collectLoop (MarshalBinary env) ctx (txQueue s) [] [] 0 []")
  case (CtxDone q d)
  then show ?thesis by (simp add: sequenceTransactions_def)
next
  case (Collected txs queueItems tot queue delivered)
  have "batchTxs (Collected txs queueItems tot queue delivered) =
        map itemTx (batchItems (Collected txs queueItems tot queue delivered))"
    using collectLoop_batch [of "MarshalBinary env" ctx "txQueue s"] Collected
    by simp
  then have l: "length txs = length queueItems" by simp
  obtain err txErrors where st:
    "SequenceTransactions env (newL2MessageHeader env s) txs (sequencerHooks s) = (err, txErrors)"
    by (cases "SequenceTransactions env (newL2MessageHeader env s) txs (sequencerHooks s)")
  have np: "length txErrors = length txs \<Longrightarrow> deliverResults txErrors 0 queueItems queue delivered \<noteq> Panic p"
    using deliverResults_no_panic [of 0 txErrors queueItems queue delivered p] l by simp
  show ?thesis
    using Collected st np
    by (auto simp: sequenceTransactions_def sequenceBatch_def forwardIfSet_def Let_def
             split: option.splits prod.splits outcome.splits if_splits)
qed

text \<open>
  C6, as stated, fails: a streamer that returns no error and no per-transaction results
  for a batch of one transaction does not abort the sequencer. The call returns, and
  the submitter is answered with the "unexpected number of error results" error.
\<close>

theorem result_count_mismatch_counterexample:
  "sequenceTransactions streamerShort ctxLive (sequencer0\<lparr>txQueue := [mkItem 14 100]\<rparr>) =
     Returned \<lparr>queueAfter = [],
               deliveries = [(mkItem 14 100, Some (ErrUnexpectedNumberOfResults 0 1))],
               seqLogged = [LogErrorSequencing (ErrUnexpectedNumberOfResults 0 1)],
               handedOver = Some (newL2MessageHeader streamerShort sequencer0, [mkTx 14 100])\<rparr>"
proof -
  have c1: "collectLoop marshalPayload ctxLive [mkItem 14 100] [] [] 0 [] =
      Collected [mkTx 14 100] [mkItem 14 100] 100 [] []"
    by (simp add: mkItem_def mkTx_def marshalPayload_def maxTxDataSize_def trySend_def ctxLive_def)
  have st: "\<not> l1Stale streamerShort (sequencer0\<lparr>txQueue := q\<rparr>)" for q
    using exactDelta_fresh by (simp add: l1Stale_def streamerShort_def sequencer0_def seqConfig0_def)
  have h: "newL2MessageHeader streamerShort (sequencer0\<lparr>txQueue := q\<rparr>) = newL2MessageHeader streamerShort sequencer0" for q
    by (simp add: newL2MessageHeader_def)
  have m: "MarshalBinary streamerShort = marshalPayload" 
      "forwarder sequencer0 = None"
      "SequenceTransactions streamerShort = (\<lambda>h txs hooks. (None, []))"
    by (simp_all add: streamerShort_def sequencer0_def)
  show ?thesis
    by (simp add: sequenceTransactions_def sequenceBatch_def forwardIfSet_def Let_def c1 st h m
          del: collectLoop.simps)
qed

text \<open>
  C6, amended. When \<open>SequenceTransactions\<close> returns no error but the number of entries of
  \<open>hooks.TxErrors\<close> differs from the number of transactions of the batch, the sequencer
  makes this an error of the batch: it logs it, answers every submitter of the batch
  with it, leaves the queue as it is and returns.
\<close>

theorem result_count_mismatch_is_recoverable:
  assumes collect: "collectLoop (MarshalBinary env) ctx (txQueue s) [] [] 0 [] = Collected txs queueItems tot queue delivered"
    and fw: "forwarder s = None"
    and fresh: "\<not> l1Stale env s"
    and st: "SequenceTransactions env (newL2MessageHeader env s) txs (sequencerHooks s) = (None, txErrors)"
    and len: "length txErrors \<noteq> length txs"
  shows "sequenceTransactions env ctx s =
     Returned \<lparr>queueAfter = queue,
               deliveries = delivered @
                 map (\<lambda>queueItem. (queueItem, Some (ErrUnexpectedNumberOfResults (length txErrors) (length txs)))) queueItems,
               seqLogged = [LogErrorSequencing (ErrUnexpectedNumberOfResults (length txErrors) (length txs))],
               handedOver = Some (newL2MessageHeader env s, txs)\<rparr>"
  using assms
  by (simp add: sequenceTransactions_def sequenceBatch_def forwardIfSet_def Let_def)

theorem result_count_mismatch_is_recoverable_witness:
  "collectLoop (MarshalBinary streamerShort) ctxLive (txQueue (sequencer0\<lparr>txQueue := [mkItem 14 100]\<rparr>)) [] [] 0 [] =
     Collected [mkTx 14 100] [mkItem 14 100] 100 [] [] \<and>
   forwarder (sequencer0\<lparr>txQueue := [mkItem 14 100]\<rparr>) = None \<and>
   \<not> l1Stale streamerShort (sequencer0\<lparr>txQueue := [mkItem 14 100]\<rparr>) \<and>
   length ([] :: error option list) \<noteq> length [mkTx 14 100] \<and>
   deliveries (case sequenceTransactions streamerShort ctxLive (sequencer0\<lparr>txQueue := [mkItem 14 100]\<rparr>) of
                 Returned r \<Rightarrow> r) =
     [(mkItem 14 100, Some (ErrUnexpectedNumberOfResults 0 1))]"
proof -
  let ?s = "sequencer0\<lparr>txQueue := [mkItem 14 100]\<rparr>"
  have c: "collectLoop (MarshalBinary streamerShort) ctxLive (txQueue ?s) [] [] 0 [] =
     Collected [mkTx 14 100] [mkItem 14 100] 100 [] []"
    by (simp add: streamerShort_def mkItem_def mkTx_def marshalPayload_def maxTxDataSize_def trySend_def
          ctxLive_def)
  have f: "forwarder ?s = None"
    by (simp add: sequencer0_def)
  have st: "\<not> l1Stale streamerShort ?s"
    using exactDelta_fresh by (simp add: l1Stale_def streamerShort_def sequencer0_def seqConfig0_def)
  have sq: "SequenceTransactions streamerShort (newL2MessageHeader streamerShort ?s) [mkTx 14 100] (sequencerHooks ?s) =
              (None, [])"
    by (simp add: streamerShort_def)
  have len: "length ([] :: error option list) \<noteq> length [mkTx 14 100]"
    by simp
  show ?thesis
    using result_count_mismatch_is_recoverable [OF c f st sq len] c f st len
    by simp
qed

section \<open>The block producer\<close>








text \<open>
  Fuel only bounds the loop: more fuel gives the same result. When no state transition
  schedules a redeem, one unit of fuel per transaction is enough, and
  \<open>ProduceBlockAdvanced\<close> returns or panics.
\<close>

lemma txLoop_more_fuel:
  "txLoop env p hooks fuel s = Some r \<Longrightarrow> txLoop env p hooks (fuel + k) s = Some r"
proof (induction fuel arbitrary: s)
  case 0
  then show ?case by (simp split: if_splits)
next
  case (Suc fuel)
  show ?case
  proof (cases "length (txes s) > 0 \<or> length (redeems s) > 0")
    case False
    with Suc.prems show ?thesis by simp
  next
    case True
    show ?thesis
    proof (cases "loopBody env p hooks s")
      case (Panic x)
      with True Suc.prems have "r = Panic x" by simp
      with True Panic show ?thesis by simp
    next
      case (Returned s1)
      with True Suc.prems have "txLoop env p hooks fuel s1 = Some r" by simp
      then have "txLoop env p hooks (fuel + k) s1 = Some r" by (rule Suc.IH)
      with True Returned show ?thesis by simp
    qed
  qed
qed

lemma applyClosure_scheduled:
  "schedulesNothing env \<Longrightarrow> appliedScheduled (applyClosure env p hooks isUserTx tx s) = []"
  by (auto simp: applyClosure_def rejected_def Let_def schedulesNothing_def
           split: sum.splits option.splits prod.splits)

lemma processTx_queues:
  assumes "schedulesNothing env" and "processTx env p hooks isUserTx tx s = Returned s'"
  shows "txes s' = txes s \<and> redeems s' = redeems s"
  using assms(2) applyClosure_scheduled [OF assms(1), of p "if isUserTx then hooks else noopSequencingHooks" isUserTx tx s]
  by (auto simp: processTx_def Let_def split: if_splits option.splits outcome.splits prod.splits)

lemma loopBody_queues:
  assumes "schedulesNothing env" and "redeems s = []" and "txes s = tx # rest"
    and "loopBody env p hooks s = Returned s'"
  shows "txes s' = rest \<and> redeems s' = []"
proof -
  have "processTx env p hooks (GetInner tx \<noteq> ArbitrumInternalTx) tx (s\<lparr>txes := rest\<rparr>) = Returned s'"
    using assms(2-4) by (simp add: loopBody_def Let_def split: if_splits)
  from processTx_queues [OF assms(1) this] show ?thesis
    using assms(2) by simp
qed

lemma txLoop_terminates:
  "schedulesNothing env \<Longrightarrow> redeems s = [] \<Longrightarrow>
   \<exists>r. txLoop env p hooks (length (txes s)) s = Some r"
proof (induction "length (txes s)" arbitrary: s)
  case 0
  then show ?case by simp
next
  case (Suc n)
  then obtain tx rest where t: "txes s = tx # rest" "length rest = n"
    by (cases "txes s") auto
  show ?case
  proof (cases "loopBody env p hooks s")
    case (Panic x)
    with t show ?thesis by simp
  next
    case (Returned s1)
    from loopBody_queues [OF Suc.prems(1) Suc.prems(2) t(1) Returned]
    have q: "txes s1 = rest" "redeems s1 = []" by simp_all
    with t(2) have "n = length (txes s1)" by simp
    from Suc.hyps(1) [OF this Suc.prems(1) q(2)]
    obtain r where "txLoop env p hooks (length (txes s1)) s1 = Some r" by blast
    with t q Returned show ?thesis by simp
  qed
qed

lemma ProduceBlockAdvanced_returns:
  assumes "schedulesNothing env"
  shows "\<exists>out. ProduceBlockAdvanced env (Suc (length txs)) l1Header txs d lastHeader st cfg hooks = Some out"
proof -
  let ?s = "initialState env l1Header txs lastHeader st cfg hooks"
  have "redeems ?s = []" and "length (txes ?s) = Suc (length txs)"
    by (simp_all add: initialState_def Let_def)
  with txLoop_terminates [OF assms, of ?s "Poster l1Header" hooks]
  obtain r where "txLoop env (Poster l1Header) hooks (Suc (length txs)) ?s = Some r"
    by auto
  then show ?thesis
    by (cases r) (auto simp: ProduceBlockAdvanced_def split: option.splits)
qed

lemma finishBlock_Returned:
  "finishBlock env cfg d s = Returned r \<Longrightarrow>
   length (producedReceipts r) = length (blockTransactions (producedBlock r)) \<and>
   Nonce (blockHeader (producedBlock r)) = PutUint64 d"
  by (auto simp: finishBlock_def Let_def NewBlock_def FinalizeBlock_def UpdateHeaderWithInfo_def
        touchUpReceipts_def split: prod.splits if_splits)

text \<open>
  C2. Every block that \<open>ProduceBlockAdvanced\<close> returns has as many receipts as
  transactions (the start transaction is one of them when it was applied), and the
  \<open>Nonce\<close> field of its header is the 8-byte big-endian encoding of the
  \<open>delayedMessagesRead\<close> passed in.
\<close>

theorem produced_block_receipts_and_nonce:
  "ProduceBlockAdvanced env fuel l1Header txs d lastHeader st cfg hooks = Some (Returned r) \<Longrightarrow>
   length (producedReceipts r) = length (blockTransactions (producedBlock r)) \<and>
   Nonce (blockHeader (producedBlock r)) = PutUint64 d"
  by (auto simp: ProduceBlockAdvanced_def split: option.splits if_splits outcome.splits
           dest: finishBlock_Returned)

theorem produced_block_receipts_and_nonce_witness:
  "ProduceBlockAdvanced (demoEnv 0 20000000) 5 demoL1Header [depositTx, withdrawTx] 5 None 0
     (demoChain False) noopSequencingHooks = Some (Returned demoProduced) \<and>
   blockTransactions (producedBlock demoProduced) = [startTx, depositTx, withdrawTx] \<and>
   length (producedReceipts demoProduced) = length (blockTransactions (producedBlock demoProduced)) \<and>
   Nonce (blockHeader (producedBlock demoProduced)) = [0, 0, 0, 0, 0, 0, 0, 5] \<and>
   PutUint64 5 = [0, 0, 0, 0, 0, 0, 0, 5]"
proof -
  have run: "ProduceBlockAdvanced (demoEnv 0 20000000) 5 demoL1Header [depositTx, withdrawTx] 5 None 0
     (demoChain False) noopSequencingHooks = Some (Returned demoProduced)"
    by code_simp
  have p: "PutUint64 5 = [0, 0, 0, 0, 0, 0, 0, 5]"
    by (simp add: PutUint64_def)
  show ?thesis
    using produced_block_receipts_and_nonce [OF run] run p by (simp add: demoProduced_def)
qed

text \<open>
  C9. Called on a state database whose unexpected balance delta is not zero,
  \<open>ProduceBlockAdvanced\<close> panics before the loop: whatever the state transition
  function, the transactions and the fuel are, the result is the panic on the dirty
  state (or the panic on the ArbOS state that fails to open, which comes first).
\<close>

theorem dirty_statedb_panics:
  "GetUnexpectedBalanceDelta env st \<noteq> 0 \<Longrightarrow>
   ProduceBlockAdvanced (env\<lparr>ApplyTransaction := apply\<rparr>) fuel l1Header txs d lastHeader st cfg hooks =
     Some (Panic (case OpenSystemArbosState env st of
                    Some err \<Rightarrow> PanicOpenArbosState err
                  | None \<Rightarrow> PanicDirtyStateDB))"
  by (simp add: ProduceBlockAdvanced_def split: option.splits)

theorem dirty_statedb_panics_witness:
  "GetUnexpectedBalanceDelta (demoEnv 0 20000000) 3 \<noteq> 0 \<and>
   ProduceBlockAdvanced ((demoEnv 0 20000000)\<lparr>ApplyTransaction := demoApply 0\<rparr>) 0 demoL1Header
     [depositTx, withdrawTx] 5 None 3 (demoChain False) noopSequencingHooks =
     Some (Panic PanicDirtyStateDB)"
proof -
  have h: "GetUnexpectedBalanceDelta (demoEnv 0 20000000) 3 \<noteq> 0"
    by (simp add: demoEnv_def)
  show ?thesis
    using h dirty_statedb_panics [OF h, of "demoApply 0" 0 demoL1Header "[depositTx, withdrawTx]" 5 None
                  "demoChain False" noopSequencingHooks]
    by (simp add: demoEnv_def)
qed





















end
